theory Spec2Isabelle
  imports Complex_Main
begin

section \<open>Continuation power flow: numerical vocabulary\<close>

text \<open>
  The development embeds \<^verbatim>\<open>continuation_power_flow.py\<close>. numpy's float64 and
  complex128 arrays are modelled as lists over \<^typ>\<open>real\<close> and \<^typ>\<open>complex\<close>: the
  arithmetic is exact, rounding, NaN and signed zeros are outside the model. Index arrays
  (\<open>pv\<close>, \<open>pq\<close>, \<open>pvpq\<close>) are lists of naturals. numpy raises IndexError on a read or
  write outside an array; the model reads with \<open>!\<close> and writes with \<open>[:=]\<close>, so it
  follows the source on index arrays that lie inside the arrays they address, and the
  theorems that depend on a read or a write say so in a hypothesis. Likewise numpy raises
  ValueError on an elementwise operation between arrays whose lengths do not fit: the
  driver's first such operation, on its two injection vectors, is modelled with its
  error; inside the predictor and the corrector the model follows the source on voltage,
  injection and solution vectors of the lengths the network gives them.
\<close>

type_synonym rvec = "real list"
type_synonym cvec = "complex list"
type_synonym idx = "nat list"
type_synonym rmat = "real list list"

text \<open>\<^verbatim>\<open>xs[idx]\<close> with an index array.\<close>

definition gather :: "'a list \<Rightarrow> idx \<Rightarrow> 'a list" where
  "gather xs js = map (\<lambda>j. xs ! j) js"

text \<open>\<^verbatim>\<open>xs[idx] = vs\<close>: the writes happen in order, a later one wins.\<close>

fun scatter :: "'a list \<Rightarrow> idx \<Rightarrow> 'a list \<Rightarrow> 'a list" where
  "scatter xs (j # js) (v # vs) = scatter (xs[j := v]) js vs"
| "scatter xs _ _ = xs"

text \<open>Elementwise \<^verbatim>\<open>a - b\<close>, \<^verbatim>\<open>a + b\<close>, \<^verbatim>\<open>dot(a, b)\<close>.\<close>

definition vsub :: "rvec \<Rightarrow> rvec \<Rightarrow> rvec" where
  "vsub a b = map2 (-) a b"

definition vadd :: "rvec \<Rightarrow> rvec \<Rightarrow> rvec" where
  "vadd a b = map2 (+) a b"

definition dot :: "rvec \<Rightarrow> rvec \<Rightarrow> real" where
  "dot a b = sum_list (map2 (*) a b)"

text \<open>\<^verbatim>\<open>linalg.norm(x, Inf)\<close> and \<^verbatim>\<open>linalg.norm(x)\<close>.\<close>

definition norm_inf :: "rvec \<Rightarrow> real" where
  "norm_inf xs = foldr (\<lambda>x m. max \<bar>x\<bar> m) xs 0"

definition norm2 :: "rvec \<Rightarrow> real" where
  "norm2 xs = sqrt (sum_list (map (\<lambda>x. x\<^sup>2) xs))"

text \<open>\<^verbatim>\<open>numpy.angle(z)\<close> is \<^verbatim>\<open>arctan2(z.imag, z.real)\<close>.\<close>

definition arctan2 :: "real \<Rightarrow> real \<Rightarrow> real" where
  "arctan2 y x =
     (if 0 < x then arctan (y / x)
      else if x < 0 then (if 0 \<le> y then arctan (y / x) + pi else arctan (y / x) - pi)
      else if 0 < y then pi / 2
      else if y < 0 then - (pi / 2)
      else 0)"

definition angle :: "complex \<Rightarrow> real" where
  "angle z = arctan2 (Im z) (Re z)"

section \<open>Parametrization function\<close>

datatype VCStopAt = Nose | Full

datatype VCParametrization = Natural | ArcLength | PseudoArcLength

text \<open>
  Python does not check the annotation \<^verbatim>\<open>parametrization: VCParametrization\<close>: the
  argument is either a member of the enumeration or some other value, which every
  \<^verbatim>\<open>==\<close> test against a member answers with False.
\<close>

datatype param_arg = Scheme VCParametrization | OtherValue

fun cpf_p :: "param_arg \<Rightarrow> real \<Rightarrow> rvec \<Rightarrow> cvec \<Rightarrow> real \<Rightarrow> cvec \<Rightarrow> real
    \<Rightarrow> idx \<Rightarrow> idx \<Rightarrow> idx \<Rightarrow> real" where
  "cpf_p (Scheme Natural) step z V lam V_prev lamprv pv pq pvpq =
     (if lam \<ge> lamprv then lam - lamprv - step else lamprv - lam - step)"
| "cpf_p (Scheme ArcLength) step z V lam V_prev lamprv pv pq pvpq =
     (let Va = map angle V;
          Vm = map cmod V;
          Va_prev = map angle V_prev;
          Vm_prev = map cmod V_prev;
          a = gather Va pvpq @ gather Vm pq @ [lam];
          b = gather Va_prev pvpq @ gather Vm_prev pq @ [lamprv]
      in sum_list (map (\<lambda>d. d\<^sup>2) (vsub a b)) - step\<^sup>2)"
| "cpf_p (Scheme PseudoArcLength) step z V lam V_prev lamprv pv pq pvpq =
     (let nb = length V;
          Va = map angle V;
          Vm = map cmod V;
          Va_prev = map angle V_prev;
          Vm_prev = map cmod V_prev;
          a = gather z (pv @ pq @ map (\<lambda>j. nb + j) pq @ [2 * nb]);
          b = gather Va pvpq @ gather Vm pq @ [lam];
          c = gather Va_prev pvpq @ gather Vm_prev pq @ [lamprv]
      in dot a (vsub b c) - step)"
| "cpf_p OtherValue step z V lam V_prev lamprv pv pq pvpq =
     (if lam \<ge> lamprv then lam - lamprv - step else lamprv - lam - step)"

fun cpf_p_jac :: "param_arg \<Rightarrow> rvec \<Rightarrow> cvec \<Rightarrow> real \<Rightarrow> cvec \<Rightarrow> real
    \<Rightarrow> idx \<Rightarrow> idx \<Rightarrow> idx \<Rightarrow> rvec \<times> real" where
  "cpf_p_jac (Scheme Natural) z V lam Vprv lamprv pv pq pvpq =
     (let npv = length pv;
          npq = length pq;
          dP_dV = replicate (npv + 2 * npq) 0
      in (dP_dV, if lam \<ge> lamprv then 1 else - 1))"
| "cpf_p_jac (Scheme ArcLength) z V lam Vprv lamprv pv pq pvpq =
     (let Va = map angle V;
          Vm = map cmod V;
          Vaprv = map angle Vprv;
          Vmprv = map cmod Vprv;
          dP_dV = map (\<lambda>d. 2 * d)
                    (vsub (gather Va pvpq @ gather Vm pq) (gather Vaprv pvpq @ gather Vmprv pq))
      in (dP_dV, if lam = lamprv then 1 else 2 * (lam - lamprv)))"
| "cpf_p_jac (Scheme PseudoArcLength) z V lam Vprv lamprv pv pq pvpq =
     (let nb = length V
      in (gather z (pv @ pq @ map (\<lambda>j. nb + j) pq), z ! (2 * nb)))"
| "cpf_p_jac OtherValue z V lam Vprv lamprv pv pq pvpq =
     (let nb = length V
      in (gather z (pv @ pq @ map (\<lambda>j. nb + j) pq), z ! (2 * nb)))"

section \<open>External collaborators\<close>

text \<open>
  A scipy CSC matrix: \<open>dense\<close> is its content row by row (what the product
  \<^verbatim>\<open>Ybus * V\<close> reads), \<open>indices\<close> the row indices of its stored entries (what
  \<^verbatim>\<open>Ybus.indices\<close> reads).
\<close>

record csc_matrix =
  dense :: "complex list list"
  indices :: "nat list"

text \<open>
  The Jacobian builder \<^verbatim>\<open>_create_J_with_numba\<close>, scipy's \<^verbatim>\<open>spsolve\<close>, and the
  power-flow worker's \<^verbatim>\<open>control_q_direct\<close> and \<^verbatim>\<open>compile_types\<close> are not part of
  this file of the repository: they are parameters of the model. \<open>control_q_direct\<close>
  takes \<open>(V, Vset, Q, Qmax, Qmin, types, original_types)\<close> and returns
  \<open>(V, Qnew, types_new, any_q_control_issue)\<close>; \<open>compile_types\<close> takes
  \<open>(Sbus, types)\<close> and returns \<open>(vd, pq, pv, pqpv)\<close>.
\<close>

record collaborators =
  create_J :: "csc_matrix \<Rightarrow> cvec \<Rightarrow> idx \<Rightarrow> idx \<Rightarrow> idx \<Rightarrow> nat \<Rightarrow> nat \<Rightarrow> rmat"
  spsolve :: "rmat \<Rightarrow> rvec \<Rightarrow> rvec"
  control_q_direct :: "cvec \<Rightarrow> rvec \<Rightarrow> rvec \<Rightarrow> rvec \<Rightarrow> rvec \<Rightarrow> int list \<Rightarrow> int list
      \<Rightarrow> cvec \<times> rvec \<times> int list \<times> bool"
  compile_types :: "cvec \<Rightarrow> int list \<Rightarrow> idx \<times> idx \<times> idx \<times> idx"

text \<open>The members of \<^verbatim>\<open>ReactivePowerControlMode\<close> (declared in \<^verbatim>\<open>basic_structures\<close>).\<close>

datatype ReactivePowerControlMode = NoControl | Direct | Iterative

section \<open>Shared pieces of corrector and predictor\<close>

text \<open>\<^verbatim>\<open>Ybus * V\<close> and \<^verbatim>\<open>V * conj(Ybus * V)\<close>.\<close>

definition csc_mul :: "csc_matrix \<Rightarrow> cvec \<Rightarrow> cvec" where
  "csc_mul Y V = map (\<lambda>row. sum_list (map2 (*) row V)) (dense Y)"

definition calc_S :: "csc_matrix \<Rightarrow> cvec \<Rightarrow> cvec" where
  "calc_S Y V = map2 (\<lambda>v c. v * cnj c) V (csc_mul Y V)"

text \<open>\<^verbatim>\<open>mismatch = Scalc - Sbus - lam * Sxfr\<close>.\<close>

definition power_mismatch :: "cvec \<Rightarrow> cvec \<Rightarrow> real \<Rightarrow> cvec \<Rightarrow> cvec" where
  "power_mismatch Scalc Sbus lam Sxfr =
     map2 (-) (map2 (-) Scalc Sbus) (map (\<lambda>x. complex_of_real lam * x) Sxfr)"

text \<open>\<^verbatim>\<open>xs[a:b]\<close>.\<close>

definition slice :: "'a list \<Rightarrow> nat \<Rightarrow> nat \<Rightarrow> 'a list" where
  "slice xs a b = take (b - a) (drop a xs)"

text \<open>
  \<^verbatim>\<open>vstack([hstack([J, dF_dlam.reshape(nj, 1)]), hstack([dP_dV, dP_dlam])])\<close>: the
  Jacobian bordered by one column and one row.
\<close>

definition augment :: "rmat \<Rightarrow> rvec \<Rightarrow> rvec \<Rightarrow> real \<Rightarrow> rmat" where
  "augment J dF_dlam dP_dV dP_dlam = map2 (\<lambda>row d. row @ [d]) J dF_dlam @ [dP_dV @ [dP_dlam]]"

text \<open>\<^verbatim>\<open>-r_[Sxfr[pvpq].real, Sxfr[pq].imag]\<close>.\<close>

definition dF_dlam_of :: "cvec \<Rightarrow> idx \<Rightarrow> idx \<Rightarrow> rvec" where
  "dF_dlam_of Sxfr pvpq pq = map uminus (map Re (gather Sxfr pvpq) @ map Im (gather Sxfr pq))"

text \<open>\<^verbatim>\<open>Vm * exp(1j * Va)\<close>.\<close>

definition polar :: "rvec \<Rightarrow> rvec \<Rightarrow> cvec" where
  "polar Vm Va = map2 (\<lambda>m a. rcis m a) Vm Va"

section \<open>Corrector\<close>

text \<open>
  The arguments of \<^verbatim>\<open>corrector\<close> that stay fixed during its Newton iteration
  (\<^verbatim>\<open>Ibus\<close> and \<^verbatim>\<open>verbose\<close> do not influence the result and are left out), and its
  local variables, which the loop updates.
\<close>

record corr_args =
  a_Ybus :: csc_matrix
  a_Sbus :: cvec
  a_pv :: idx
  a_pq :: idx
  a_Sxfr :: cvec
  a_Vprv :: cvec
  a_lamprv :: real
  a_z :: rvec
  a_step :: real
  a_parametrization :: param_arg
  a_tol :: real
  a_max_it :: nat
  a_pvpq_lookup :: idx

record corr_state =
  c_V :: cvec
  c_Va :: rvec
  c_Vm :: rvec
  c_lam :: real
  c_F :: rvec
  c_normF :: real
  c_Scalc :: cvec
  c_converged :: bool
  c_i :: nat

text \<open>Lines 288 to 325: the state before the first Newton iteration.\<close>

definition corr_init :: "corr_args \<Rightarrow> cvec \<Rightarrow> real \<Rightarrow> corr_state" where
  "corr_init A V0 lam0 =
     (let V = V0;
          Va = map angle V;
          Vm = map cmod V;
          lam = lam0;
          pvpq = a_pv A @ a_pq A;
          Scalc = calc_S (a_Ybus A) V;
          mismatch = power_mismatch Scalc (a_Sbus A) lam (a_Sxfr A);
          P = cpf_p (a_parametrization A) (a_step A) (a_z A) V lam (a_Vprv A) (a_lamprv A)
                (a_pv A) (a_pq A) pvpq;
          F = map Re (gather mismatch pvpq) @ map Im (gather mismatch (a_pq A)) @ [P];
          normF = norm_inf F
      in \<lparr>c_V = V, c_Va = Va, c_Vm = Vm, c_lam = lam, c_F = F, c_normF = normF,
          c_Scalc = Scalc, c_converged = (normF < a_tol A), c_i = 0\<rparr>)"

text \<open>Lines 330 to 388: one pass through the body of the Newton loop.\<close>

definition newton_iter :: "collaborators \<Rightarrow> corr_args \<Rightarrow> corr_state \<Rightarrow> corr_state" where
  "newton_iter sv A s =
     (let i = c_i s + 1;
          pv = a_pv A;
          pq = a_pq A;
          npv = length pv;
          npq = length pq;
          pvpq = pv @ pq;
          j1 = 0;
          j2 = npv + npq;
          j3 = j2 + npq;
          J = create_J sv (a_Ybus A) (c_V s) pvpq pq (a_pvpq_lookup A) npv npq;
          dF_dlam = dF_dlam_of (a_Sxfr A) pvpq pq;
          (dP_dV, dP_dlam) = cpf_p_jac (a_parametrization A) (a_z A) (c_V s) (c_lam s)
                               (a_Vprv A) (a_lamprv A) pv pq pvpq;
          J = augment J dF_dlam dP_dV dP_dlam;
          dx = map uminus (spsolve sv J (c_F s));
          Va = (if npv \<noteq> 0
                then scatter (c_Va s) pvpq (vadd (gather (c_Va s) pvpq) (slice dx j1 j2))
                else c_Va s);
          Vm = (if npq \<noteq> 0
                then scatter (c_Vm s) pq (vadd (gather (c_Vm s) pq) (slice dx j2 j3))
                else c_Vm s);
          lam = c_lam s + dx ! j3;
          V = polar Vm Va;
          Vm = map cmod V;
          Va = map angle V;
          Scalc = calc_S (a_Ybus A) V;
          mismatch = power_mismatch Scalc (a_Sbus A) lam (a_Sxfr A);
          P = cpf_p (a_parametrization A) (a_step A) (a_z A) V lam (a_Vprv A) (a_lamprv A)
                pv pq pvpq;
          F = map Re (gather mismatch pv) @ map Re (gather mismatch pq)
                @ map Im (gather mismatch pq) @ [P];
          normF = norm_inf F
      in \<lparr>c_V = V, c_Va = Va, c_Vm = Vm, c_lam = lam, c_F = F, c_normF = normF,
          c_Scalc = Scalc, c_converged = (normF < a_tol A), c_i = i\<rparr>)"

text \<open>\<^verbatim>\<open>while not converged and i < max_it\<close>.\<close>

function corr_loop :: "collaborators \<Rightarrow> corr_args \<Rightarrow> corr_state \<Rightarrow> corr_state" where
  "corr_loop sv A s =
     (if \<not> c_converged s \<and> c_i s < a_max_it A then corr_loop sv A (newton_iter sv A s) else s)"
  by pat_completeness auto
termination
  by (relation "measure (\<lambda>(sv, A, s). a_max_it A - c_i s)")
     (auto simp: newton_iter_def Let_def split: prod.splits)

text \<open>Returns \<^verbatim>\<open>V, converged, i, lam, normF, Scalc\<close>.\<close>

definition corrector :: "collaborators \<Rightarrow> csc_matrix \<Rightarrow> cvec \<Rightarrow> cvec \<Rightarrow> idx \<Rightarrow> idx \<Rightarrow> real
    \<Rightarrow> cvec \<Rightarrow> cvec \<Rightarrow> real \<Rightarrow> rvec \<Rightarrow> real \<Rightarrow> param_arg \<Rightarrow> real \<Rightarrow> nat \<Rightarrow> idx
    \<Rightarrow> cvec \<times> bool \<times> nat \<times> real \<times> real \<times> cvec" where
  "corrector sv Ybus Sbus V0 pv pq lam0 Sxfr Vprv lamprv z step parametrization tol max_it
       pvpq_lookup =
     (let A = \<lparr>a_Ybus = Ybus, a_Sbus = Sbus, a_pv = pv, a_pq = pq, a_Sxfr = Sxfr,
               a_Vprv = Vprv, a_lamprv = lamprv, a_z = z, a_step = step,
               a_parametrization = parametrization, a_tol = tol, a_max_it = max_it,
               a_pvpq_lookup = pvpq_lookup\<rparr>;
          s = corr_loop sv A (corr_init A V0 lam0)
      in (c_V s, c_converged s, c_i s, c_lam s, c_normF s, c_Scalc s))"

section \<open>Predictor\<close>

text \<open>
  \<open>tangent_system\<close> is lines 433 to 462 of \<^verbatim>\<open>predictor\<close>: the bordered Jacobian
  \<^verbatim>\<open>J2\<close> and the right-hand side \<^verbatim>\<open>s\<close> of the linear system for the tangent.
  \<^verbatim>\<open>z\<close> is updated in place and returned; \<^verbatim>\<open>Va0\<close> and \<^verbatim>\<open>Vm0\<close> are the arrays
  \<^verbatim>\<open>Va_prev\<close> and \<^verbatim>\<open>Vm_prev\<close> under a second name, and each right-hand side is
  evaluated before its write. numpy's division by a zero norm gives NaN where HOL's gives
  0: the model follows the source where the norm is not zero.
\<close>

definition tangent_system :: "collaborators \<Rightarrow> cvec \<Rightarrow> real \<Rightarrow> csc_matrix \<Rightarrow> cvec
    \<Rightarrow> idx \<Rightarrow> idx \<Rightarrow> rvec \<Rightarrow> cvec \<Rightarrow> real \<Rightarrow> param_arg \<Rightarrow> idx \<Rightarrow> rmat \<times> rvec" where
  "tangent_system sv V lam Ybus Sxfr pv pq z Vprv lamprv parametrization pvpq_lookup =
     (let npv = length pv;
          npq = length pq;
          pvpq = pv @ pq;
          J = create_J sv Ybus V pvpq pq pvpq_lookup npv npq;
          dF_dlam = dF_dlam_of Sxfr pvpq pq;
          (dP_dV, dP_dlam) = cpf_p_jac parametrization z V lam Vprv lamprv pv pq pvpq;
          J2 = augment J dF_dlam dP_dV dP_dlam;
          s = (replicate (npv + 2 * npq + 1) 0)[npv + 2 * npq := 1]
      in (J2, s))"

definition predictor :: "collaborators \<Rightarrow> cvec \<Rightarrow> real \<Rightarrow> csc_matrix \<Rightarrow> cvec \<Rightarrow> idx \<Rightarrow> idx
    \<Rightarrow> real \<Rightarrow> rvec \<Rightarrow> cvec \<Rightarrow> real \<Rightarrow> param_arg \<Rightarrow> idx \<Rightarrow> cvec \<times> real \<times> rvec" where
  "predictor sv V lam Ybus Sxfr pv pq step z Vprv lamprv parametrization pvpq_lookup =
     (let nb = length V;
          pvpq = pv @ pq;
          (J2, s) = tangent_system sv V lam Ybus Sxfr pv pq z Vprv lamprv parametrization
                      pvpq_lookup;
          Va_prev = map angle V;
          Vm_prev = map cmod V;
          z = scatter z (pvpq @ map (\<lambda>j. nb + j) pq @ [2 * nb]) (spsolve sv J2 s);
          z = map (\<lambda>x. x / norm2 z) z;
          Va0 = scatter Va_prev pvpq
                  (vadd (gather Va_prev pvpq) (map (\<lambda>x. step * x) (gather z pvpq)));
          Vm0 = scatter Vm_prev pq
                  (vadd (gather Vm_prev pq)
                     (map (\<lambda>x. step * x) (gather z (map (\<lambda>j. j + nb) pq))));
          lam0 = lam + step * z ! (2 * nb);
          V0 = polar Vm0 Va0
      in (V0, lam0, z))"

section \<open>Continuation driver\<close>

datatype py_error = AttributeError | ValueError | IndexError | TypeError | Exception string

text \<open>
  The \<^verbatim>\<open>stop_at\<close> argument: a member of \<^verbatim>\<open>VCStopAt\<close>, a string (which the
  concatenation in the \<^verbatim>\<open>raise\<close> accepts), or any other value (on which the
  concatenation itself raises TypeError).
\<close>

datatype stop_arg = StopAt VCStopAt | StopStr string | StopOther

text \<open>
  What the loop of \<^verbatim>\<open>continuation_nr\<close> reads and never assigns. \<open>e_pvpq\<close> and
  \<open>e_pvpq_lookup\<close> are computed once, before the loop; \<open>e_call_back\<close> says whether
  \<^verbatim>\<open>call_back_fx\<close> is not None.
\<close>

record cpf_env =
  e_Ybus :: csc_matrix
  e_Sbus_base :: cvec
  e_Sxfr :: cvec
  e_pvpq :: idx
  e_pvpq_lookup :: idx
  e_step_min :: real
  e_step_max :: real
  e_error_tol :: real
  e_tol :: real
  e_max_it :: nat
  e_stop_at :: stop_arg
  e_controlQ :: ReactivePowerControlMode
  e_Qmax_bus :: rvec
  e_Qmin_bus :: rvec
  e_original_bus_types :: "int list"
  e_call_back :: bool

text \<open>
  The variables the loop assigns. \<open>s_Sbus\<close> is the local \<^verbatim>\<open>Sbus\<close>, unbound until
  the reactive-limit branch assigns it; \<open>s_V0\<close> and \<open>s_lam0\<close> hold the last prediction;
  \<open>s_callback_log\<close> collects the arguments of the calls of \<^verbatim>\<open>call_back_fx\<close>.
\<close>

record cpf_state =
  s_V :: cvec
  s_lam :: real
  s_V_prev :: cvec
  s_lam_prev :: real
  s_V0 :: cvec
  s_lam0 :: real
  s_z :: rvec
  s_step :: real
  s_pv :: idx
  s_pq :: idx
  s_bus_types :: "int list"
  s_Sbus :: "cvec option"
  s_Scalc :: cvec
  s_approximation_order :: param_arg
  s_adapt_step :: bool
  s_continuation :: bool
  s_cont_steps :: nat
  s_normF :: real
  s_success :: bool
  s_voltage_series :: "cvec list"
  s_lambda_series :: "real list"
  s_callback_log :: "real list"

text \<open>
  Lines 559 to 601: count the step, predict, save the previous point, correct with
  \<^verbatim>\<open>Sbus=Sbus_base\<close>, append to the series.
\<close>

definition predict_correct :: "collaborators \<Rightarrow> cpf_env \<Rightarrow> cpf_state \<Rightarrow> cpf_state" where
  "predict_correct sv e s =
     (let cont_steps = s_cont_steps s + 1;
          (V0, lam0, z) = predictor sv (s_V s) (s_lam s) (e_Ybus e) (e_Sxfr e) (s_pv s) (s_pq s)
                            (s_step s) (s_z s) (s_V_prev s) (s_lam_prev s)
                            (s_approximation_order s) (e_pvpq_lookup e);
          V_prev = s_V s;
          lam_prev = s_lam s;
          (V, success, i, lam, normF, Scalc) =
             corrector sv (e_Ybus e) (e_Sbus_base e) V0 (s_pv s) (s_pq s) lam0 (e_Sxfr e)
               V_prev lam_prev z (s_step s) (s_approximation_order s) (e_tol e) (e_max_it e)
               (e_pvpq_lookup e)
      in s\<lparr>s_cont_steps := cont_steps, s_V0 := V0, s_lam0 := lam0, s_z := z,
            s_V_prev := V_prev, s_lam_prev := lam_prev, s_V := V, s_success := success,
            s_lam := lam, s_normF := normF, s_Scalc := Scalc,
            s_voltage_series := s_voltage_series s @ [V],
            s_lambda_series := s_lambda_series s @ [lam]\<rparr>)"

text \<open>Lines 610 to 635: reactive-limit control and its consequences.\<close>

definition q_control :: "collaborators \<Rightarrow> cpf_env \<Rightarrow> cpf_state \<Rightarrow> cpf_state" where
  "q_control sv e s =
     (let (V, Qnew, types_new, any_q_control_issue) =
            (if e_controlQ e = Direct
             then control_q_direct sv (s_V s) (map cmod (s_V s)) (map Im (s_Scalc s))
                    (e_Qmax_bus e) (e_Qmin_bus e) (s_bus_types s) (e_original_bus_types e)
             else (s_V s, map Im (s_Scalc s), s_bus_types s, False))
      in if any_q_control_issue
         then (let bus_types = types_new;
                   Sbus = map2 (\<lambda>p q. Complex p q) (map Re (s_Scalc s)) Qnew;
                   (vd, pq, pv, pqpv) = compile_types sv Sbus types_new
               in s\<lparr>s_V := V, s_bus_types := bus_types, s_Sbus := Some Sbus,
                     s_pq := pq, s_pv := pv\<rparr>)
         else s\<lparr>s_V := V\<rparr>)"

text \<open>Lines 637 to 663: the stop condition.\<close>

definition stop_check :: "cpf_env \<Rightarrow> cpf_state \<Rightarrow> py_error + cpf_state" where
  "stop_check e s =
     (case e_stop_at e of
        StopAt Full \<Rightarrow>
          (if \<bar>s_lam s\<bar> < 1 / 10 ^ 8 then Inr (s\<lparr>s_continuation := False\<rparr>)
           else if s_lam s < s_lam_prev s \<and> s_lam s - s_step s < 0
           then Inr (s\<lparr>s_step := s_lam s, s_approximation_order := Scheme Natural,
                       s_adapt_step := False\<rparr>)
           else Inr s)
      | StopAt Nose \<Rightarrow>
          (if s_lam s < s_lam_prev s then Inr (s\<lparr>s_continuation := False\<rparr>) else Inr s)
      | StopStr t \<Rightarrow> Inl (Exception (''Stop point '' @ t @ '' not recognised.''))
      | StopOther \<Rightarrow> Inl TypeError)"

text \<open>Lines 665 to 684: the adaptive step.\<close>

definition cpf_error_of :: "cpf_env \<Rightarrow> cpf_state \<Rightarrow> real" where
  "cpf_error_of e s =
     (let V = s_V s; V0 = s_V0 s; pq = s_pq s; pvpq = e_pvpq e;
          fx = vsub (map angle (gather V pq) @ map cmod (gather V pvpq) @ [s_lam s])
                    (map angle (gather V0 pq) @ map cmod (gather V0 pvpq) @ [s_lam0 s]);
          cpf_error = norm_inf fx
      in if cpf_error = 0 then 1 / 10 ^ 20 else cpf_error)"

definition adapt_step_size :: "cpf_env \<Rightarrow> cpf_state \<Rightarrow> cpf_state" where
  "adapt_step_size e s =
     (if s_adapt_step s \<and> s_continuation s
      then (let cpf_error = cpf_error_of e s
            in if cpf_error < e_error_tol e
               then (let step = s_step s * e_error_tol e / cpf_error
                     in s\<lparr>s_step := (if step > e_step_max e then e_step_max e else step)\<rparr>)
               else (let step = s_step s * e_error_tol e / cpf_error
                     in s\<lparr>s_step := (if step < e_step_min e then e_step_min e else step)\<rparr>))
      else s)"

text \<open>Lines 686 to 688.\<close>

definition call_back :: "cpf_env \<Rightarrow> cpf_state \<Rightarrow> cpf_state" where
  "call_back e s =
     (if e_call_back e then s\<lparr>s_callback_log := s_callback_log s @ [s_lam s]\<rparr> else s)"

text \<open>One pass through the body of \<^verbatim>\<open>while continuation\<close>.\<close>

definition cont_iter :: "collaborators \<Rightarrow> cpf_env \<Rightarrow> cpf_state \<Rightarrow> py_error + cpf_state" where
  "cont_iter sv e s =
     (let s1 = predict_correct sv e s
      in if s_success s1
         then (case stop_check e (q_control sv e s1) of
                 Inl err \<Rightarrow> Inl err
               | Inr s3 \<Rightarrow> Inr (call_back e (adapt_step_size e s3)))
         else Inr (s1\<lparr>s_continuation := False\<rparr>))"

text \<open>
  The loop may run for ever. \<open>cont_run n\<close> makes at most \<open>n\<close> passes and returns the
  state it has reached: the loop has ended there when \<open>s_continuation\<close> is False.
\<close>

fun cont_run :: "nat \<Rightarrow> collaborators \<Rightarrow> cpf_env \<Rightarrow> cpf_state \<Rightarrow> py_error + cpf_state" where
  "cont_run 0 sv e s = Inr s"
| "cont_run (Suc n) sv e s =
     (if s_continuation s
      then (case cont_iter sv e s of Inl err \<Rightarrow> Inl err | Inr s' \<Rightarrow> cont_run n sv e s')
      else Inr s)"

text \<open>
  \<^verbatim>\<open>a - b\<close> between two one-dimensional arrays: elementwise when the lengths agree, an
  array of length 1 is broadcast over the other, and any other pair of lengths raises
  ValueError.
\<close>

definition np_sub :: "cvec \<Rightarrow> cvec \<Rightarrow> py_error + cvec" where
  "np_sub a b =
     (if length a = length b then Inr (map2 (-) a b)
      else if length a = 1 then Inr (map (\<lambda>y. a ! 0 - y) b)
      else if length b = 1 then Inr (map (\<lambda>x. x - b ! 0) a)
      else Inl ValueError)"

text \<open>
  Lines 533 to 555: the initialisation. \<^verbatim>\<open>Sbus_target - Sbus_base\<close> raises ValueError
  on lengths that do not fit; \<^verbatim>\<open>original_bus_types\<close> defaults to None, whose
  \<^verbatim>\<open>copy\<close> raises AttributeError; \<^verbatim>\<open>np.max\<close> of an empty array raises ValueError;
  the write \<^verbatim>\<open>pvpq_lookup[pvpq]\<close> raises IndexError outside the array. \<open>init_env\<close>
  takes the transfer vector \<open>Sxfr\<close> that the subtraction has returned.
\<close>

definition init_env :: "csc_matrix \<Rightarrow> cvec \<Rightarrow> cvec \<Rightarrow> idx \<Rightarrow> idx \<Rightarrow> real \<Rightarrow> real \<Rightarrow> real \<Rightarrow> real
    \<Rightarrow> nat \<Rightarrow> stop_arg \<Rightarrow> ReactivePowerControlMode \<Rightarrow> rvec \<Rightarrow> rvec \<Rightarrow> int list \<Rightarrow> bool
    \<Rightarrow> cpf_env" where
  "init_env Ybus Sbus_base Sxfr pv pq step_min step_max error_tol tol max_it stop_at
       controlQ Qmax_bus Qmin_bus original_bus_types cb =
     (let pvpq = pv @ pq;
          pvpq_lookup = scatter (replicate (Max (set (indices Ybus)) + 1) 0) pvpq
                          [0 ..< length pvpq]
      in \<lparr>e_Ybus = Ybus, e_Sbus_base = Sbus_base, e_Sxfr = Sxfr, e_pvpq = pvpq,
          e_pvpq_lookup = pvpq_lookup, e_step_min = step_min, e_step_max = step_max,
          e_error_tol = error_tol, e_tol = tol, e_max_it = max_it, e_stop_at = stop_at,
          e_controlQ = controlQ, e_Qmax_bus = Qmax_bus, e_Qmin_bus = Qmin_bus,
          e_original_bus_types = original_bus_types, e_call_back = cb\<rparr>)"

definition init_state :: "cvec \<Rightarrow> cvec \<Rightarrow> idx \<Rightarrow> idx \<Rightarrow> real \<Rightarrow> param_arg \<Rightarrow> bool \<Rightarrow> int list
    \<Rightarrow> cpf_state" where
  "init_state Sbus_base V pv pq step approximation_order adapt_step original_bus_types =
     (let nb = length Sbus_base;
          lam = 0
      in \<lparr>s_V = V, s_lam = lam, s_V_prev = V, s_lam_prev = lam, s_V0 = [], s_lam0 = 0,
          s_z = (replicate (2 * nb + 1) 0)[2 * nb := 1], s_step = step, s_pv = pv, s_pq = pq,
          s_bus_types = original_bus_types, s_Sbus = None, s_Scalc = [],
          s_approximation_order = approximation_order, s_adapt_step = adapt_step,
          s_continuation = True, s_cont_steps = 0, s_normF = 0, s_success = False,
          s_voltage_series = [], s_lambda_series = [], s_callback_log = []\<rparr>)"

text \<open>
  \<^verbatim>\<open>continuation_nr\<close>, with at most \<open>n\<close> passes through its loop: \<open>None\<close> when the
  loop has not ended by then, otherwise the exception raised or the tuple returned,
  \<^verbatim>\<open>voltage_series, lambda_series, normF, success\<close>.
\<close>

definition continuation_nr :: "nat \<Rightarrow> collaborators \<Rightarrow> csc_matrix \<Rightarrow> cvec \<Rightarrow> cvec \<Rightarrow> cvec
    \<Rightarrow> idx \<Rightarrow> idx \<Rightarrow> real \<Rightarrow> param_arg \<Rightarrow> bool \<Rightarrow> real \<Rightarrow> real \<Rightarrow> real \<Rightarrow> real \<Rightarrow> nat
    \<Rightarrow> stop_arg \<Rightarrow> ReactivePowerControlMode \<Rightarrow> rvec \<Rightarrow> rvec \<Rightarrow> int list option \<Rightarrow> bool
    \<Rightarrow> (py_error + cvec list \<times> real list \<times> real \<times> bool) option" where
  "continuation_nr n sv Ybus Sbus_base Sbus_target V pv pq step approximation_order adapt_step
       step_min step_max error_tol tol max_it stop_at controlQ Qmax_bus Qmin_bus
       original_bus_types cb =
     (case np_sub Sbus_target Sbus_base of
        Inl err \<Rightarrow> Some (Inl err)
      | Inr Sxfr \<Rightarrow>
          (case original_bus_types of
             None \<Rightarrow> Some (Inl AttributeError)
           | Some types \<Rightarrow>
               if indices Ybus = [] then Some (Inl ValueError)
               else if list_ex (\<lambda>j. j > Max (set (indices Ybus))) (pv @ pq)
               then Some (Inl IndexError)
               else (case cont_run n sv
                            (init_env Ybus Sbus_base Sxfr pv pq step_min step_max error_tol
                               tol max_it stop_at controlQ Qmax_bus Qmin_bus types cb)
                            (init_state Sbus_base V pv pq step approximation_order adapt_step
                               types)
                     of
                       Inl err \<Rightarrow> Some (Inl err)
                     | Inr s \<Rightarrow>
                         if s_continuation s then None
                         else Some (Inr (s_voltage_series s, s_lambda_series s, s_normF s,
                                         s_success s)))))"

section \<open>The arc-length distance, in the words of the specification\<close>

text \<open>
  The squared Euclidean distance between two solution points in the space of the angles at
  \<open>pvpq\<close>, the magnitudes at \<open>pq\<close> and \<open>lambda\<close>.
\<close>

definition arc_distance_sq :: "cvec \<Rightarrow> real \<Rightarrow> cvec \<Rightarrow> real \<Rightarrow> idx \<Rightarrow> idx \<Rightarrow> real" where
  "arc_distance_sq V lam V_prev lamprv pvpq pq =
     (\<Sum>j\<leftarrow>pvpq. (angle (V ! j) - angle (V_prev ! j))\<^sup>2)
     + (\<Sum>j\<leftarrow>pq. (cmod (V ! j) - cmod (V_prev ! j))\<^sup>2)
     + (lam - lamprv)\<^sup>2"

section \<open>A two-bus network for concrete runs\<close>

text \<open>
  Bus 0 is the slack bus at voltage 1; bus 1 is a PQ bus or, in the run with
  reactive-limit control, a PV bus. A line of reactance 1 (admittance \<open>-\<i>\<close>) joins
  them. The base case carries no load; the target case draws a reactive load at bus 1.
\<close>

definition two_bus_Y :: csc_matrix where
  "two_bus_Y = \<lparr>dense = [[- \<i>, \<i>], [\<i>, - \<i>]], indices = [0, 1, 0, 1]\<rparr>"

text \<open>
  With \<open>V ! 0 = 1\<close> the injection at bus 1 is \<open>\<i> * ((cmod v)\<^sup>2 - v)\<close> for
  \<open>v = V ! 1\<close>, that is \<open>P = m * sin t\<close> and \<open>Q = m\<^sup>2 - m * cos t\<close> in polar
  coordinates. Its derivatives by the angle and by the magnitude are the power-flow
  Jacobian of this network, which stands for the Jacobian builder in the concrete runs:
  both rows and columns when bus 1 is a PQ bus, the derivative of \<open>P\<close> by the angle alone
  when it is a PV bus.
\<close>

definition two_bus_J :: "csc_matrix \<Rightarrow> cvec \<Rightarrow> idx \<Rightarrow> idx \<Rightarrow> idx \<Rightarrow> nat \<Rightarrow> nat \<Rightarrow> rmat" where
  "two_bus_J Y V pvpq pq pvpq_lookup npv npq =
     (let v = V ! 1
      in if npq = 1 then [[Re v, Im v / cmod v],
                          [Im v, 2 * cmod v - Re v / cmod v]]
         else if npv = 1 then [[Re v]]
         else [])"

text \<open>
  A linear solver for the concrete runs: back substitution, which solves a system whose
  matrix is upper triangular with a non-zero diagonal.
\<close>

fun back_subst :: "rmat \<Rightarrow> rvec \<Rightarrow> rvec" where
  "back_subst (row # rows) (b # bs) =
     (let xs = back_subst (map tl rows) bs in (b - dot (tl row) xs) / hd row # xs)"
| "back_subst _ _ = []"

definition mat_vec :: "rmat \<Rightarrow> rvec \<Rightarrow> rvec" where
  "mat_vec J x = map (\<lambda>row. dot row x) J"

fun upper_triangular :: "rmat \<Rightarrow> bool" where
  "upper_triangular [] = True"
| "upper_triangular (row # rows) =
     (length row = Suc (length rows) \<and> hd row \<noteq> 0
      \<and> list_all (\<lambda>r. length r = Suc (length rows) \<and> hd r = 0) rows
      \<and> upper_triangular (map tl rows))"

text \<open>
  Stand-ins for the reactive-limit control and the bus-type compilation in the concrete
  runs, with the bus types 1 (PQ), 2 (PV) and 3 (slack): a PV bus whose reactive power
  lies outside its limits becomes a PQ bus at the limit it has crossed, and the index
  lists collect the buses of each type.
\<close>

definition q_clip :: "cvec \<Rightarrow> rvec \<Rightarrow> rvec \<Rightarrow> rvec \<Rightarrow> rvec \<Rightarrow> int list \<Rightarrow> int list
    \<Rightarrow> cvec \<times> rvec \<times> int list \<times> bool" where
  "q_clip V Vset Q Qmax Qmin types original_types =
     (let rows = zip Q (zip Qmax (zip Qmin types));
          Qnew = map (\<lambda>(q, hi, lo, t).
                   if t = 2 \<and> q > hi then hi else if t = 2 \<and> q < lo then lo else q) rows;
          types_new = map (\<lambda>(q, hi, lo, t). if t = 2 \<and> (q > hi \<or> q < lo) then 1 else t) rows
      in (V, Qnew, types_new, list_ex (\<lambda>(q, hi, lo, t). t = 2 \<and> (q > hi \<or> q < lo)) rows))"

definition compile_by_type :: "cvec \<Rightarrow> int list \<Rightarrow> idx \<times> idx \<times> idx \<times> idx" where
  "compile_by_type Sbus types =
     (let buses = [0 ..< length types];
          pq = filter (\<lambda>j. types ! j = 1) buses;
          pv = filter (\<lambda>j. types ! j = 2) buses;
          vd = filter (\<lambda>j. types ! j = 3) buses
      in (vd, pq, pv, sort (pq @ pv)))"

definition two_bus_sv :: collaborators where
  "two_bus_sv = \<lparr>create_J = two_bus_J, spsolve = back_subst,
                  control_q_direct = q_clip, compile_types = compile_by_type\<rparr>"

text \<open>
  The transfer vector of the concrete runs, and the arguments of the corrector at their
  first continuation step: Natural scheme, step \<open>1/4\<close>, previous point \<open>([1, 1], 0)\<close>,
  tangent \<open>[0, 0, 0, -3/5, 4/5]\<close>.
\<close>

definition two_bus_Sxfr :: cvec where
  "two_bus_Sxfr = [0, - (3 / 4) * \<i>]"

definition two_bus_args :: "real \<Rightarrow> nat \<Rightarrow> corr_args" where
  "two_bus_args tol max_it =
     \<lparr>a_Ybus = two_bus_Y, a_Sbus = [0, 0], a_pv = [], a_pq = [1], a_Sxfr = two_bus_Sxfr,
      a_Vprv = [1, 1], a_lamprv = 0, a_z = [0, 0, 0, - (3 / 5), 4 / 5], a_step = 1 / 4,
      a_parametrization = Scheme Natural, a_tol = tol, a_max_it = max_it,
      a_pvpq_lookup = [0, 0]\<rparr>"

text \<open>
  The driver's environment and initial state for the two-bus network: step \<open>1/4\<close>,
  Natural scheme, adaptive step between \<open>1/10000\<close> and \<open>1/5\<close> with error tolerance
  \<open>1/1000\<close>, bus types slack (3) and PQ (1), no callback.
\<close>

definition two_bus_env :: "real \<Rightarrow> nat \<Rightarrow> stop_arg \<Rightarrow> ReactivePowerControlMode \<Rightarrow> cpf_env" where
  "two_bus_env tol max_it stop_at controlQ =
     init_env two_bus_Y [0, 0] [0, - (3 / 4) * \<i>] [] [1] (1 / 10000) (1 / 5) (1 / 1000)
       tol max_it stop_at controlQ [] [] [3, 1] False"

definition two_bus_start :: cpf_state where
  "two_bus_start = init_state [0, 0] [1, 1] [] [1] (1 / 4) (Scheme Natural) True [3, 1]"

text \<open>
  The same network with bus 1 as a PV bus (type 2) whose reactive power must stay between
  \<open>1/10\<close> and 1, under direct reactive-limit control, with a fixed step and at most one
  Newton iteration per corrector call.
\<close>

definition two_bus_pv_env :: cpf_env where
  "two_bus_pv_env =
     init_env two_bus_Y [0, 0] [0, - (3 / 4) * \<i>] [1] [] (1 / 10000) (1 / 5) (1 / 1000)
       (1 / 100) 1 (StopAt Nose) Direct [1, 1] [- 1, 1 / 10] [3, 2] False"

definition two_bus_pv_start :: cpf_state where
  "two_bus_pv_start = init_state [0, 0] [1, 1] [1] [] (1 / 4) (Scheme Natural) False [3, 2]"

text \<open>
  The PQ network again with the bounds of the adaptive step left open: upper bound
  \<open>step_max\<close> and error tolerance \<open>error_tol\<close> as given, Newton tolerance \<open>1/100\<close>, at
  most 20 Newton iterations, stop at the nose, no reactive-limit control. And the
  initial state of the PV network with the adaptive step enabled.
\<close>

definition two_bus_adapt_env :: "real \<Rightarrow> real \<Rightarrow> cpf_env" where
  "two_bus_adapt_env step_max error_tol =
     init_env two_bus_Y [0, 0] [0, - (3 / 4) * \<i>] [] [1] (1 / 10000) step_max error_tol
       (1 / 100) 20 (StopAt Nose) NoControl [] [] [3, 1] False"

definition two_bus_pv_adapt_start :: cpf_state where
  "two_bus_pv_adapt_start =
     init_state [0, 0] [1, 1] [1] [] (1 / 4) (Scheme Natural) True [3, 2]"

section \<open>Auxiliary lemmas\<close>

subsection \<open>Lists and vectors\<close>

lemma gather_append: "gather xs (js @ ks) = gather xs js @ gather xs ks"
  by (simp add: gather_def)

lemma length_gather [simp]: "length (gather xs js) = length js"
  by (simp add: gather_def)

lemma gather_Nil [simp]: "gather xs [] = []"
  by (simp add: gather_def)

lemma gather_Cons [simp]: "gather xs (j # js) = xs ! j # gather xs js"
  by (simp add: gather_def)

lemma vsub_append:
  "length a = length b \<Longrightarrow> vsub (a @ c) (b @ d) = vsub a b @ vsub c d"
  by (simp add: vsub_def)

lemma vsub_gather:
  "vsub (gather xs js) (gather ys js) = map (\<lambda>j. xs ! j - ys ! j) js"
  by (induction js) (simp_all add: vsub_def gather_def)


lemma dot_Cons [simp]: "dot (a # as) (b # bs) = a * b + dot as bs"
  by (simp add: dot_def)

lemma dot_Nil [simp]: "dot [] bs = 0" "dot as [] = 0"
  by (simp_all add: dot_def)


lemma norm_inf_Nil [simp]: "norm_inf [] = 0"
  by (simp add: norm_inf_def)

lemma norm_inf_Cons [simp]: "norm_inf (x # xs) = max \<bar>x\<bar> (norm_inf xs)"
  by (simp add: norm_inf_def)

lemma norm_inf_nonneg: "0 \<le> norm_inf xs"
  by (induction xs) simp_all

lemma norm_inf_Max: "xs \<noteq> [] \<Longrightarrow> norm_inf xs = Max (set (map abs xs))"
proof (induction xs)
  case Nil
  then show ?case by simp
next
  case (Cons x xs)
  show ?case
  proof (cases "xs = []")
    case True
    then show ?thesis by simp
  next
    case False
    with Cons.IH show ?thesis by simp
  qed
qed

lemma length_scatter [simp]: "length (scatter xs js vs) = length xs"
  by (induction xs js vs rule: scatter.induct) simp_all









subsection \<open>Back substitution\<close>

lemma mat_vec_Cons_zero:
  "list_all (\<lambda>r. length r = Suc n \<and> hd r = 0) rows \<Longrightarrow>
   mat_vec rows (x # xs) = mat_vec (map tl rows) xs"
proof (induction rows)
  case Nil
  then show ?case by (simp add: mat_vec_def)
next
  case (Cons r rows)
  then obtain a as where r: "r = a # as" by (cases r) auto
  with Cons show ?case by (simp add: mat_vec_def)
qed

lemma back_subst_length:
  "length b = length J \<Longrightarrow> length (back_subst J b) = length J"
  by (induction J b rule: back_subst.induct) (simp_all add: Let_def)

lemma back_subst_solves:
  "upper_triangular J \<Longrightarrow> length b = length J \<Longrightarrow> mat_vec J (back_subst J b) = b"
proof (induction J b rule: back_subst.induct)
  case (1 row rows b bs)
  obtain a as where row: "row = a # as" using 1 by (cases row) auto
  define xs where "xs = back_subst (map tl rows) bs"
  have ih: "mat_vec (map tl rows) xs = bs"
    using 1 by (simp add: xs_def)
  have z: "list_all (\<lambda>r. length r = Suc (length rows) \<and> hd r = 0) rows"
    using 1 by simp
  have bs: "back_subst (row # rows) (b # bs) = (b - dot as xs) / a # xs"
    by (simp add: row xs_def Let_def)
  have h: "dot row ((b - dot as xs) / a # xs) = b"
    using 1 by (simp add: row)
  have "mat_vec (row # rows) ((b - dot as xs) / a # xs)
        = dot row ((b - dot as xs) / a # xs) # mat_vec rows ((b - dot as xs) / a # xs)"
    by (simp add: mat_vec_def)
  also have "\<dots> = b # bs"
    using h ih mat_vec_Cons_zero [OF z] by simp
  finally show ?case by (simp only: bs)
qed (simp_all add: mat_vec_def)


text \<open>
  The systems of the concrete runs: under the Natural scheme the last row of the bordered
  Jacobian is \<open>[0, 0, 1]\<close>, and while the voltage at bus 1 is a positive real other
  than \<open>1/2\<close> the Jacobian of the two-bus network is diagonal with a non-zero
  diagonal, so back substitution returns the solution.
\<close>

lemma two_bus_system_solved:
  assumes "0 < m" and "m \<noteq> 1 / 2"
  shows "mat_vec (augment (two_bus_J Y [v, complex_of_real m] pvpq pq lk 0 1) [a, b] [0, 0] 1)
           (back_subst
              (augment (two_bus_J Y [v, complex_of_real m] pvpq pq lk 0 1) [a, b] [0, 0] 1)
              [f1, f2, f3])
         = [f1, f2, f3]"
proof -
  have "upper_triangular
          (augment (two_bus_J Y [v, complex_of_real m] pvpq pq lk 0 1) [a, b] [0, 0] 1)"
    using assms by (simp add: two_bus_J_def augment_def Let_def)
  then show ?thesis by (rule back_subst_solves) (simp add: two_bus_J_def augment_def Let_def)
qed

subsection \<open>The angle of a complex number\<close>






lemma angle_bounds: "- pi < angle z \<and> angle z \<le> pi"
proof -
  have b: "- (pi / 2) < arctan (Im z / Re z)" "arctan (Im z / Re z) < pi / 2"
    using arctan_bounded [of "Im z / Re z"] by simp_all
  have n: "Re z < 0 \<Longrightarrow> 0 \<le> Im z \<Longrightarrow> arctan (Im z / Re z) \<le> 0"
    by (simp add: arctan_le_zero_iff divide_le_0_iff)
  have p: "Re z < 0 \<Longrightarrow> Im z < 0 \<Longrightarrow> 0 < arctan (Im z / Re z)"
    by (simp add: zero_less_divide_iff)
  show ?thesis
    using b n p pi_gt_zero by (auto simp: angle_def arctan2_def)
qed

lemma angle_pos_real [simp]: "Im z = 0 \<Longrightarrow> 0 < Re z \<Longrightarrow> angle z = 0"
  by (simp add: angle_def arctan2_def)

lemma angle_neg_real [simp]: "Im z = 0 \<Longrightarrow> Re z < 0 \<Longrightarrow> angle z = pi"
  by (simp add: angle_def arctan2_def)



subsection \<open>Parametrization function\<close>

lemma cpf_p_arclength_sum:
  "cpf_p (Scheme ArcLength) step z V lam V_prev lamprv pv pq pvpq =
     (\<Sum>j\<leftarrow>pvpq. (map angle V ! j - map angle V_prev ! j)\<^sup>2)
     + (\<Sum>j\<leftarrow>pq. (map cmod V ! j - map cmod V_prev ! j)\<^sup>2)
     + (lam - lamprv)\<^sup>2 - step\<^sup>2"
  by (simp add: Let_def vsub_append vsub_gather o_def gather_append del: gather_Cons)
     (simp add: vsub_def)

lemma cpf_p_jac_arclength:
  "cpf_p_jac (Scheme ArcLength) z V lam V_prev lamprv pv pq pvpq =
     (map (\<lambda>j. 2 * (map angle V ! j - map angle V_prev ! j)) pvpq
      @ map (\<lambda>j. 2 * (map cmod V ! j - map cmod V_prev ! j)) pq,
      if lam = lamprv then 1 else 2 * (lam - lamprv))"
  by (simp add: Let_def vsub_append vsub_gather o_def)

subsection \<open>Corrector\<close>

declare corr_loop.simps [simp del]



lemma newton_iter_consistent:
  "newton_iter sv A s =
     (corr_init A (c_V (newton_iter sv A s)) (c_lam (newton_iter sv A s)))\<lparr>c_i := c_i s + 1\<rparr>"
  by (simp add: newton_iter_def corr_init_def Let_def gather_append split: prod.splits
        del: gather_Cons)

lemma corr_loop_consistent:
  "s = (corr_init A (c_V s) (c_lam s))\<lparr>c_i := c_i s\<rparr> \<Longrightarrow>
   corr_loop sv A s =
     (corr_init A (c_V (corr_loop sv A s)) (c_lam (corr_loop sv A s)))
       \<lparr>c_i := c_i (corr_loop sv A s)\<rparr>"
proof (induction sv A s rule: corr_loop.induct)
  case (1 sv A s)
  show ?case
  proof (cases "\<not> c_converged s \<and> c_i s < a_max_it A")
    case True
    have n: "newton_iter sv A s =
             (corr_init A (c_V (newton_iter sv A s)) (c_lam (newton_iter sv A s)))
               \<lparr>c_i := c_i (newton_iter sv A s)\<rparr>"
      by (subst newton_iter_consistent) (simp add: newton_iter_def Let_def split: prod.splits)
    have l: "corr_loop sv A s = corr_loop sv A (newton_iter sv A s)"
      using True by (subst corr_loop.simps) simp
    show ?thesis unfolding l using "1.IH" [OF True n] .
  next
    case False
    then have "corr_loop sv A s = s" by (subst corr_loop.simps) auto
    then show ?thesis using "1.prems" by simp
  qed
qed

lemma corr_init_consistent:
  "corr_init A V0 lam0 = (corr_init A (c_V (corr_init A V0 lam0)) (c_lam (corr_init A V0 lam0)))
      \<lparr>c_i := c_i (corr_init A V0 lam0)\<rparr>"
  by (simp add: corr_init_def Let_def)

subsection \<open>Driver\<close>

lemma predict_correct_series:
  "s_cont_steps (predict_correct sv e s) = s_cont_steps s + 1"
  "s_voltage_series (predict_correct sv e s) = s_voltage_series s @ [s_V (predict_correct sv e s)]"
  "s_lambda_series (predict_correct sv e s) = s_lambda_series s @ [s_lam (predict_correct sv e s)]"
  "s_step (predict_correct sv e s) = s_step s"
  "s_adapt_step (predict_correct sv e s) = s_adapt_step s"
  "s_continuation (predict_correct sv e s) = s_continuation s"
  by (simp_all add: predict_correct_def Let_def split: prod.splits)

lemma q_control_keeps:
  "s_cont_steps (q_control sv e s) = s_cont_steps s"
  "s_voltage_series (q_control sv e s) = s_voltage_series s"
  "s_lambda_series (q_control sv e s) = s_lambda_series s"
  "s_step (q_control sv e s) = s_step s"
  "s_adapt_step (q_control sv e s) = s_adapt_step s"
  "s_continuation (q_control sv e s) = s_continuation s"
  "s_success (q_control sv e s) = s_success s"
  "s_lam (q_control sv e s) = s_lam s"
  "s_normF (q_control sv e s) = s_normF s"
  by (simp_all add: q_control_def Let_def split: prod.splits)

lemma stop_check_keeps:
  assumes "stop_check e s = Inr s'"
  shows "s_cont_steps s' = s_cont_steps s"
    and "s_voltage_series s' = s_voltage_series s"
    and "s_lambda_series s' = s_lambda_series s"
    and "s_success s' = s_success s"
    and "s_adapt_step s' \<Longrightarrow> s_step s' = s_step s"
    and "s_continuation s' \<Longrightarrow> s_continuation s"
  using assms
  by (auto simp: stop_check_def split: stop_arg.splits VCStopAt.splits if_splits)

lemma adapt_step_size_keeps:
  "s_cont_steps (adapt_step_size e s) = s_cont_steps s"
  "s_voltage_series (adapt_step_size e s) = s_voltage_series s"
  "s_lambda_series (adapt_step_size e s) = s_lambda_series s"
  "s_adapt_step (adapt_step_size e s) = s_adapt_step s"
  "s_continuation (adapt_step_size e s) = s_continuation s"
  "s_success (adapt_step_size e s) = s_success s"
  "cpf_error_of e (adapt_step_size e s) = cpf_error_of e s"
  by (simp_all add: adapt_step_size_def cpf_error_of_def Let_def)

lemma call_back_keeps:
  "s_cont_steps (call_back e s) = s_cont_steps s"
  "s_voltage_series (call_back e s) = s_voltage_series s"
  "s_lambda_series (call_back e s) = s_lambda_series s"
  "s_adapt_step (call_back e s) = s_adapt_step s"
  "s_continuation (call_back e s) = s_continuation s"
  "s_success (call_back e s) = s_success s"
  "s_step (call_back e s) = s_step s"
  "cpf_error_of e (call_back e s) = cpf_error_of e s"
  by (simp_all add: call_back_def cpf_error_of_def Let_def)

lemma cpf_error_of_pos: "0 < cpf_error_of e s"
  using norm_inf_nonneg
  by (simp add: cpf_error_of_def Let_def less_le)

lemma adapt_step_size_step:
  assumes "s_adapt_step s" and "s_continuation s"
  shows "s_step (adapt_step_size e s) =
           (if cpf_error_of e s < e_error_tol e
            then min (s_step s * e_error_tol e / cpf_error_of e s) (e_step_max e)
            else max (s_step s * e_error_tol e / cpf_error_of e s) (e_step_min e))"
  using assms by (simp add: adapt_step_size_def Let_def min_def max_def)

lemma cont_iter_cases:
  assumes "cont_iter sv e s = Inr s'"
  obtains (failed) "\<not> s_success (predict_correct sv e s)"
      "s' = (predict_correct sv e s)\<lparr>s_continuation := False\<rparr>"
    | (succeeded) s3 where "s_success (predict_correct sv e s)"
      "stop_check e (q_control sv e (predict_correct sv e s)) = Inr s3"
      "s' = call_back e (adapt_step_size e s3)"
  using assms by (auto simp: cont_iter_def Let_def split: if_splits sum.splits)

lemma cpf_error_of_Max:
  "cpf_error_of e s =
     (let fx = map2 (-)
                 (map (\<lambda>j. angle (s_V s ! j)) (s_pq s) @ map (\<lambda>j. cmod (s_V s ! j)) (e_pvpq e)
                    @ [s_lam s])
                 (map (\<lambda>j. angle (s_V0 s ! j)) (s_pq s) @ map (\<lambda>j. cmod (s_V0 s ! j)) (e_pvpq e)
                    @ [s_lam0 s])
      in if Max (set (map abs fx)) = 0 then 1 / 10 ^ 20 else Max (set (map abs fx)))"
proof -
  have n: "vsub (map angle (gather (s_V s) (s_pq s)) @ map cmod (gather (s_V s) (e_pvpq e))
                   @ [s_lam s])
                (map angle (gather (s_V0 s) (s_pq s)) @ map cmod (gather (s_V0 s) (e_pvpq e))
                   @ [s_lam0 s]) \<noteq> []"
    by (simp add: vsub_def)
  show ?thesis
    unfolding cpf_error_of_def Let_def norm_inf_Max [OF n]
    by (simp add: vsub_def gather_def comp_def)
qed

lemma q_control_point:
  "s_V0 (q_control sv e s) = s_V0 s"
  "s_lam0 (q_control sv e s) = s_lam0 s"
  by (simp_all add: q_control_def Let_def split: prod.splits)

lemma stop_check_point:
  assumes "stop_check e s = Inr s'"
  shows "s_V0 s' = s_V0 s" and "s_lam0 s' = s_lam0 s" and "s_lam s' = s_lam s"
  using assms
  by (auto simp: stop_check_def split: stop_arg.splits VCStopAt.splits if_splits)

lemma adapt_step_size_point:
  "s_V0 (adapt_step_size e s) = s_V0 s"
  "s_lam0 (adapt_step_size e s) = s_lam0 s"
  "s_lam (adapt_step_size e s) = s_lam s"
  by (simp_all add: adapt_step_size_def Let_def)

lemma call_back_point:
  "s_V0 (call_back e s) = s_V0 s"
  "s_lam0 (call_back e s) = s_lam0 s"
  "s_lam (call_back e s) = s_lam s"
  by (simp_all add: call_back_def)

lemma cont_iter_point:
  assumes "cont_iter sv e s = Inr s'"
  shows "s_V0 s' = s_V0 (predict_correct sv e s)"
    and "s_lam0 s' = s_lam0 (predict_correct sv e s)"
    and "s_lam s' = s_lam (predict_correct sv e s)"
  using assms
  by (cases rule: cont_iter_cases;
      simp add: q_control_point q_control_keeps stop_check_point adapt_step_size_point
        call_back_point)+

lemma cont_iter_series:
  assumes "cont_iter sv e s = Inr s'"
  shows "s_cont_steps s' = s_cont_steps s + 1"
    and "s_voltage_series s' = s_voltage_series s @ [s_V (predict_correct sv e s)]"
    and "s_lambda_series s' = s_lambda_series s @ [s_lam (predict_correct sv e s)]"
  using assms
  by (cases rule: cont_iter_cases;
      simp add: predict_correct_series q_control_keeps stop_check_keeps adapt_step_size_keeps
        call_back_keeps)+

lemma cont_run_invariant:
  assumes "cont_run n sv e s = Inr s'"
    and "length (s_voltage_series s) = s_cont_steps s"
    and "length (s_lambda_series s) = s_cont_steps s"
  shows "length (s_voltage_series s') = s_cont_steps s'
         \<and> length (s_lambda_series s') = s_cont_steps s'
         \<and> s_cont_steps s' \<le> s_cont_steps s + n"
  using assms
proof (induction n arbitrary: s)
  case 0
  then show ?case by simp
next
  case (Suc n)
  show ?case
  proof (cases "s_continuation s")
    case False
    with Suc.prems show ?thesis by simp
  next
    case True
    then obtain t where t: "cont_iter sv e s = Inr t" "cont_run n sv e t = Inr s'"
      using Suc.prems(1) by (auto split: sum.splits)
    have "length (s_voltage_series t) = s_cont_steps t"
      "length (s_lambda_series t) = s_cont_steps t"
      using cont_iter_series [OF t(1)] Suc.prems by simp_all
    from Suc.IH [OF t(2) this] cont_iter_series(1) [OF t(1)] show ?thesis by simp
  qed
qed


lemma cont_run_one:
  "s_continuation s \<Longrightarrow> cont_run 1 sv e s =
     (case cont_iter sv e s of Inl err \<Rightarrow> Inl err | Inr s' \<Rightarrow> Inr s')"
  unfolding One_nat_def by (simp split: sum.splits)

lemma cont_run_two:
  "s_continuation s \<Longrightarrow> cont_run 2 sv e s =
     (case cont_iter sv e s of Inl err \<Rightarrow> Inl err | Inr s' \<Rightarrow> cont_run 1 sv e s')"
  unfolding numeral_2_eq_2 One_nat_def by simp

subsection \<open>Evaluation on the two-bus network\<close>

lemma two_bus_S:
  "calc_S two_bus_Y [1, complex_of_real m] = [\<i> * (1 - m), \<i> * (m * (m - 1))]"
  by (simp add: calc_S_def csc_mul_def two_bus_Y_def complex_eq_iff algebra_simps)

lemma two_bus_init:
  "corr_init (two_bus_args tol mx) [1, 17/20] (1/5)
   = \<lparr>c_V = [1, 17/20], c_Va = [0, 0], c_Vm = [1, 17/20], c_lam = 1/5,
       c_F = [0, 9/400, - (1/20)], c_normF = 1/20,
       c_Scalc = [\<i> * (3/20), - (\<i> * (51/400))], c_converged = (1/20 < tol), c_i = 0\<rparr>"
  using two_bus_S [of "17/20"]
  by (auto simp: corr_init_def two_bus_args_def two_bus_Sxfr_def Let_def power_mismatch_def)

lemma two_bus_newton:
  "newton_iter two_bus_sv (two_bus_args tol mx) (corr_init (two_bus_args tol mx) [1, 17/20] (1/5))
   = \<lparr>c_V = [1, 107/140], c_Va = [0, 0], c_Vm = [1, 107/140], c_lam = 1/4,
       c_F = [0, 9/1225, 0], c_normF = 9/1225,
       c_Scalc = [\<i> * (33/140), - (\<i> * (3531/19600))], c_converged = (9/1225 < tol),
       c_i = 1\<rparr>"
  unfolding two_bus_init
  using two_bus_S [of "107/140"]
  by (auto simp: newton_iter_def two_bus_args_def two_bus_Sxfr_def Let_def power_mismatch_def
        two_bus_sv_def two_bus_J_def dF_dlam_of_def augment_def polar_def vadd_def slice_def)

lemma two_bus_init2:
  "corr_init (two_bus_args tol mx) [1, 107/140] (1/4)
   = \<lparr>c_V = [1, 107/140], c_Va = [0, 0], c_Vm = [1, 107/140], c_lam = 1/4,
       c_F = [0, 9/1225, 0], c_normF = 9/1225,
       c_Scalc = [\<i> * (33/140), - (\<i> * (3531/19600))], c_converged = (9/1225 < tol),
       c_i = 0\<rparr>"
  using two_bus_S [of "107/140"]
  by (auto simp: corr_init_def two_bus_args_def two_bus_Sxfr_def Let_def power_mismatch_def)

lemma two_bus_corrector:
  assumes "tol \<le> 1/20" and "9/1225 < tol \<and> 0 < mx \<or> mx = 1"
  shows "corrector two_bus_sv two_bus_Y [0, 0] [1, 17/20] [] [1] (1/5) two_bus_Sxfr [1, 1] 0
           [0, 0, 0, - (3/5), 4/5] (1/4) (Scheme Natural) tol mx [0, 0]
         = ([1, 107/140], 9/1225 < tol, 1, 1/4, 9/1225,
            [\<i> * (33/140), - (\<i> * (3531/19600))])"
proof -
  let ?A = "two_bus_args tol mx"
  let ?s0 = "corr_init ?A [1, 17/20] (1/5)"
  let ?s1 = "newton_iter two_bus_sv ?A ?s0"
  have m: "a_max_it ?A = mx" by (simp add: two_bus_args_def)
  have c0: "\<not> c_converged ?s0" "c_i ?s0 = 0"
    using assms by (simp_all add: two_bus_init)
  have c1: "c_converged ?s1 = (9/1225 < tol)" "c_i ?s1 = 1"
    by (simp_all add: two_bus_newton)
  have "corr_loop two_bus_sv ?A ?s0 = corr_loop two_bus_sv ?A ?s1"
    using assms c0 m by (subst corr_loop.simps) auto
  also have "\<dots> = ?s1"
    using assms c1 m by (subst corr_loop.simps) auto
  finally have "corr_loop two_bus_sv ?A ?s0 = ?s1" .
  then show ?thesis
    unfolding corrector_def Let_def two_bus_args_def [of tol mx, symmetric]
    by (simp add: two_bus_newton)
qed

lemma two_bus_corrector_again:
  assumes "9/1225 < tol"
  shows "corrector two_bus_sv two_bus_Y [0, 0] [1, 107/140] [] [1] (1/4) two_bus_Sxfr [1, 1] 0
           [0, 0, 0, - (3/5), 4/5] (1/4) (Scheme Natural) tol mx [0, 0]
         = ([1, 107/140], True, 0, 1/4, 9/1225,
            [\<i> * (33/140), - (\<i> * (3531/19600))])"
proof -
  let ?A = "two_bus_args tol mx"
  let ?s0 = "corr_init ?A [1, 107/140] (1/4)"
  have c0: "c_converged ?s0"
    using assms by (simp add: two_bus_init2)
  have "corr_loop two_bus_sv ?A ?s0 = ?s0"
    using c0 by (subst corr_loop.simps) auto
  then show ?thesis
    unfolding corrector_def Let_def two_bus_args_def [of tol mx, symmetric]
    using assms by (simp add: two_bus_init2)
qed

lemma sqrt_25_16 [simp]: "sqrt ((3 / 4)\<^sup>2 + 1) = 5 / 4"
  by (rule real_sqrt_unique) (simp_all add: power2_eq_square)

lemma two_bus_tangent_system:
  "tangent_system two_bus_sv [1, 1] 0 two_bus_Y two_bus_Sxfr [] [1] [0, 0, 0, 0, 1] [1, 1] 0
     (Scheme Natural) [0, 0]
   = ([[1, 0, 0], [0, 1, 3/4], [0, 0, 1]], [0, 0, 1])"
  by (simp add: tangent_system_def Let_def two_bus_sv_def two_bus_J_def two_bus_Sxfr_def
        dF_dlam_of_def augment_def)

lemma two_bus_predictor:
  "predictor two_bus_sv [1, 1] 0 two_bus_Y two_bus_Sxfr [] [1] (1/4) [0, 0, 0, 0, 1]
     [1, 1] 0 (Scheme Natural) [0, 0]
   = ([1, 17/20], 1/5, [0, 0, 0, - (3/5), 4/5])"
  unfolding predictor_def two_bus_tangent_system
  by (simp add: Let_def two_bus_sv_def norm2_def polar_def vadd_def)

lemma two_bus_np_sub: "np_sub [0, - (3 / 4) * \<i>] [0, 0] = Inr [0, - (3 / 4) * \<i>]"
  by (simp add: np_sub_def)

lemma two_bus_env_eval:
  "two_bus_env tol mx stop cq =
     \<lparr>e_Ybus = two_bus_Y, e_Sbus_base = [0, 0], e_Sxfr = two_bus_Sxfr, e_pvpq = [1],
      e_pvpq_lookup = [0, 0], e_step_min = 1 / 10000, e_step_max = 1 / 5,
      e_error_tol = 1 / 1000, e_tol = tol, e_max_it = mx, e_stop_at = stop,
      e_controlQ = cq, e_Qmax_bus = [], e_Qmin_bus = [], e_original_bus_types = [3, 1],
      e_call_back = False\<rparr>"
  by (simp add: two_bus_env_def init_env_def Let_def two_bus_Y_def two_bus_Sxfr_def)

lemma two_bus_start_eval:
  "two_bus_start =
     \<lparr>s_V = [1, 1], s_lam = 0, s_V_prev = [1, 1], s_lam_prev = 0, s_V0 = [], s_lam0 = 0,
      s_z = [0, 0, 0, 0, 1], s_step = 1 / 4, s_pv = [], s_pq = [1],
      s_bus_types = [3, 1], s_Sbus = None, s_Scalc = [],
      s_approximation_order = Scheme Natural, s_adapt_step = True,
      s_continuation = True, s_cont_steps = 0, s_normF = 0, s_success = False,
      s_voltage_series = [], s_lambda_series = [], s_callback_log = []\<rparr>"
  by (simp add: two_bus_start_def init_state_def Let_def eval_nat_numeral)

lemma two_bus_predict_correct:
  assumes "tol \<le> 1/20" and "9/1225 < tol \<and> 0 < mx \<or> mx = 1"
  shows "predict_correct two_bus_sv (two_bus_env tol mx stop cq) two_bus_start =
     \<lparr>s_V = [1, 107/140], s_lam = 1/4, s_V_prev = [1, 1], s_lam_prev = 0,
      s_V0 = [1, 17/20], s_lam0 = 1/5,
      s_z = [0, 0, 0, - (3/5), 4/5], s_step = 1 / 4, s_pv = [], s_pq = [1],
      s_bus_types = [3, 1], s_Sbus = None,
      s_Scalc = [\<i> * (33/140), - (\<i> * (3531/19600))],
      s_approximation_order = Scheme Natural, s_adapt_step = True,
      s_continuation = True, s_cont_steps = 1, s_normF = 9/1225, s_success = (9/1225 < tol),
      s_voltage_series = [[1, 107/140]], s_lambda_series = [1/4], s_callback_log = []\<rparr>"
  unfolding predict_correct_def two_bus_env_eval two_bus_start_eval
  by (simp add: two_bus_predictor two_bus_corrector [OF assms] del: One_nat_def)

lemma two_bus_cpf_error:
  assumes "s_V s = [1, 107/140]" and "s_V0 s = [1, 17/20]" and "s_pq s = [1]"
    and "s_lam s = 1/4" and "s_lam0 s = 1/5"
  shows "cpf_error_of (two_bus_env tol mx stop cq) s = 3/35"
  unfolding two_bus_env_eval
  by (simp add: cpf_error_of_def Let_def vsub_def assms)

lemma two_bus_first_step:
  "cont_iter two_bus_sv (two_bus_env (1/100) 20 (StopAt Nose) NoControl) two_bus_start =
   Inr \<lparr>s_V = [1, 107/140], s_lam = 1/4, s_V_prev = [1, 1], s_lam_prev = 0,
      s_V0 = [1, 17/20], s_lam0 = 1/5,
      s_z = [0, 0, 0, - (3/5), 4/5], s_step = 7/2400, s_pv = [], s_pq = [1],
      s_bus_types = [3, 1], s_Sbus = None,
      s_Scalc = [\<i> * (33/140), - (\<i> * (3531/19600))],
      s_approximation_order = Scheme Natural, s_adapt_step = True,
      s_continuation = True, s_cont_steps = 1, s_normF = 9/1225, s_success = True,
      s_voltage_series = [[1, 107/140]], s_lambda_series = [1/4], s_callback_log = []\<rparr>"
proof -
  have pc: "predict_correct two_bus_sv (two_bus_env (1/100) 20 (StopAt Nose) NoControl)
              two_bus_start =
     \<lparr>s_V = [1, 107/140], s_lam = 1/4, s_V_prev = [1, 1], s_lam_prev = 0,
      s_V0 = [1, 17/20], s_lam0 = 1/5,
      s_z = [0, 0, 0, - (3/5), 4/5], s_step = 1 / 4, s_pv = [], s_pq = [1],
      s_bus_types = [3, 1], s_Sbus = None,
      s_Scalc = [\<i> * (33/140), - (\<i> * (3531/19600))],
      s_approximation_order = Scheme Natural, s_adapt_step = True,
      s_continuation = True, s_cont_steps = 1, s_normF = 9/1225, s_success = True,
      s_voltage_series = [[1, 107/140]], s_lambda_series = [1/4], s_callback_log = []\<rparr>"
    using two_bus_predict_correct [of "1/100" 20 "StopAt Nose" NoControl] by simp
  have f: "e_controlQ (two_bus_env (1/100) 20 (StopAt Nose) NoControl) = NoControl"
    "e_stop_at (two_bus_env (1/100) 20 (StopAt Nose) NoControl) = StopAt Nose"
    "e_call_back (two_bus_env (1/100) 20 (StopAt Nose) NoControl) = False"
    "e_error_tol (two_bus_env (1/100) 20 (StopAt Nose) NoControl) = 1/1000"
    "e_step_min (two_bus_env (1/100) 20 (StopAt Nose) NoControl) = 1/10000"
    "e_step_max (two_bus_env (1/100) 20 (StopAt Nose) NoControl) = 1/5"
    by (simp_all add: two_bus_env_eval)
  show ?thesis
    unfolding cont_iter_def pc Let_def
    by (simp add: q_control_def stop_check_def adapt_step_size_def call_back_def f
          two_bus_cpf_error Let_def del: One_nat_def)
qed

lemma two_bus_failed_step:
  "cont_iter two_bus_sv (two_bus_env (1 / 10 ^ 6) 1 stop cq) two_bus_start =
   Inr \<lparr>s_V = [1, 107/140], s_lam = 1/4, s_V_prev = [1, 1], s_lam_prev = 0,
      s_V0 = [1, 17/20], s_lam0 = 1/5,
      s_z = [0, 0, 0, - (3/5), 4/5], s_step = 1/4, s_pv = [], s_pq = [1],
      s_bus_types = [3, 1], s_Sbus = None,
      s_Scalc = [\<i> * (33/140), - (\<i> * (3531/19600))],
      s_approximation_order = Scheme Natural, s_adapt_step = True,
      s_continuation = False, s_cont_steps = 1, s_normF = 9/1225, s_success = False,
      s_voltage_series = [[1, 107/140]], s_lambda_series = [1/4], s_callback_log = []\<rparr>"
proof -
  have pc: "predict_correct two_bus_sv (two_bus_env (1 / 10 ^ 6) 1 stop cq) two_bus_start =
     \<lparr>s_V = [1, 107/140], s_lam = 1/4, s_V_prev = [1, 1], s_lam_prev = 0,
      s_V0 = [1, 17/20], s_lam0 = 1/5,
      s_z = [0, 0, 0, - (3/5), 4/5], s_step = 1 / 4, s_pv = [], s_pq = [1],
      s_bus_types = [3, 1], s_Sbus = None,
      s_Scalc = [\<i> * (33/140), - (\<i> * (3531/19600))],
      s_approximation_order = Scheme Natural, s_adapt_step = True,
      s_continuation = True, s_cont_steps = 1, s_normF = 9/1225, s_success = False,
      s_voltage_series = [[1, 107/140]], s_lambda_series = [1/4], s_callback_log = []\<rparr>"
    using two_bus_predict_correct [of "1 / 10 ^ 6" 1 stop cq] by simp
  show ?thesis
    unfolding cont_iter_def pc Let_def by simp
qed

lemma two_bus_pv_env_eval:
  "two_bus_pv_env =
     \<lparr>e_Ybus = two_bus_Y, e_Sbus_base = [0, 0], e_Sxfr = two_bus_Sxfr, e_pvpq = [1],
      e_pvpq_lookup = [0, 0], e_step_min = 1 / 10000, e_step_max = 1 / 5,
      e_error_tol = 1 / 1000, e_tol = 1 / 100, e_max_it = 1, e_stop_at = StopAt Nose,
      e_controlQ = Direct, e_Qmax_bus = [1, 1], e_Qmin_bus = [- 1, 1 / 10],
      e_original_bus_types = [3, 2], e_call_back = False\<rparr>"
  by (simp add: two_bus_pv_env_def init_env_def Let_def two_bus_Y_def two_bus_Sxfr_def)

lemma two_bus_pv_start_eval:
  "two_bus_pv_start =
     \<lparr>s_V = [1, 1], s_lam = 0, s_V_prev = [1, 1], s_lam_prev = 0, s_V0 = [], s_lam0 = 0,
      s_z = [0, 0, 0, 0, 1], s_step = 1 / 4, s_pv = [1], s_pq = [],
      s_bus_types = [3, 2], s_Sbus = None, s_Scalc = [],
      s_approximation_order = Scheme Natural, s_adapt_step = False,
      s_continuation = True, s_cont_steps = 0, s_normF = 0, s_success = False,
      s_voltage_series = [], s_lambda_series = [], s_callback_log = []\<rparr>"
  by (simp add: two_bus_pv_start_def init_state_def Let_def eval_nat_numeral)

lemma two_bus_pv_predictor:
  "predictor two_bus_sv [1, 1] 0 two_bus_Y two_bus_Sxfr [1] [] (1/4) [0, 0, 0, 0, 1]
     [1, 1] 0 (Scheme Natural) [0, 0]
   = ([1, 1], 1/4, [0, 0, 0, 0, 1])"
  by (simp add: predictor_def tangent_system_def Let_def two_bus_sv_def two_bus_J_def
        two_bus_Sxfr_def dF_dlam_of_def augment_def norm2_def polar_def vadd_def)

lemma two_bus_pv_corrector:
  "corrector two_bus_sv two_bus_Y [0, 0] [1, 1] [1] [] (1/4) two_bus_Sxfr [1, 1] 0
     [0, 0, 0, 0, 1] (1/4) (Scheme Natural) (1/100) 1 [0, 0]
   = ([1, 1], True, 0, 1/4, 0, [0, 0])"
proof -
  define A where "A = \<lparr>a_Ybus = two_bus_Y, a_Sbus = [0, 0], a_pv = [1], a_pq = [],
      a_Sxfr = two_bus_Sxfr, a_Vprv = [1, 1], a_lamprv = 0, a_z = [0, 0, 0, 0, 1],
      a_step = 1/4, a_parametrization = Scheme Natural, a_tol = 1/100, a_max_it = 1,
      a_pvpq_lookup = [0, 0]\<rparr>"
  define s0 where "s0 = corr_init A [1, 1] (1/4)"
  have e0: "s0 = \<lparr>c_V = [1, 1], c_Va = [0, 0], c_Vm = [1, 1], c_lam = 1/4,
       c_F = [0, 0], c_normF = 0, c_Scalc = [0, 0], c_converged = True, c_i = 0\<rparr>"
    using two_bus_S [of 1]
    by (auto simp: s0_def A_def corr_init_def Let_def power_mismatch_def two_bus_Sxfr_def)
  have "corr_loop two_bus_sv A s0 = s0"
    by (subst corr_loop.simps) (simp add: e0)
  then show ?thesis
    unfolding corrector_def Let_def A_def [symmetric] s0_def [symmetric]
    by (simp add: e0)
qed

lemma two_bus_pv_first_step:
  "cont_iter two_bus_sv two_bus_pv_env two_bus_pv_start =
   Inr \<lparr>s_V = [1, 1], s_lam = 1/4, s_V_prev = [1, 1], s_lam_prev = 0,
      s_V0 = [1, 1], s_lam0 = 1/4,
      s_z = [0, 0, 0, 0, 1], s_step = 1/4, s_pv = [], s_pq = [1],
      s_bus_types = [3, 1], s_Sbus = Some [0, \<i> * (1/10)],
      s_Scalc = [0, 0],
      s_approximation_order = Scheme Natural, s_adapt_step = False,
      s_continuation = True, s_cont_steps = 1, s_normF = 0, s_success = True,
      s_voltage_series = [[1, 1]], s_lambda_series = [1/4], s_callback_log = []\<rparr>"
proof -
  have pc: "predict_correct two_bus_sv two_bus_pv_env two_bus_pv_start =
     \<lparr>s_V = [1, 1], s_lam = 1/4, s_V_prev = [1, 1], s_lam_prev = 0,
      s_V0 = [1, 1], s_lam0 = 1/4,
      s_z = [0, 0, 0, 0, 1], s_step = 1/4, s_pv = [1], s_pq = [],
      s_bus_types = [3, 2], s_Sbus = None,
      s_Scalc = [0, 0],
      s_approximation_order = Scheme Natural, s_adapt_step = False,
      s_continuation = True, s_cont_steps = 1, s_normF = 0, s_success = True,
      s_voltage_series = [[1, 1]], s_lambda_series = [1/4], s_callback_log = []\<rparr>"
    unfolding predict_correct_def two_bus_pv_env_eval two_bus_pv_start_eval
    by (simp add: two_bus_pv_predictor two_bus_pv_corrector Let_def del: One_nat_def)
  have q: "q_clip [1, 1] [1, 1] [0, 0] [1, 1] [- 1, 1 / 10] [3, 2] [3, 2]
           = ([1, 1], [0, 1/10], [3, 1], True)"
    by (simp add: q_clip_def Let_def)
  have t: "compile_by_type S [3, 1] = ([0], [1], [], [1])" for S
    by (simp add: compile_by_type_def Let_def upt_rec)
  have c: "[Complex 0 0, Complex 0 (1/10)] = [0, \<i> * (1/10)]"
    by (simp add: complex_eq_iff)
  show ?thesis
    unfolding cont_iter_def pc Let_def
    unfolding two_bus_pv_env_eval
    by (simp add: q_control_def stop_check_def adapt_step_size_def call_back_def
          two_bus_sv_def q t c Let_def del: One_nat_def)
qed

lemma two_bus_predictor_second:
  "predictor two_bus_sv [1, 1] (1/4) two_bus_Y two_bus_Sxfr [] [1] (1/4) [0, 0, 0, 0, 1]
     [1, 1] 0 (Scheme Natural) [0, 0]
   = ([1, 17/20], 9/20, [0, 0, 0, - (3/5), 4/5])"
  by (simp add: predictor_def tangent_system_def Let_def two_bus_sv_def two_bus_J_def
        two_bus_Sxfr_def dF_dlam_of_def augment_def norm2_def polar_def vadd_def)

lemma two_bus_corrector_base:
  "corrector two_bus_sv two_bus_Y [0, 0] [1, 17/20] [] [1] (9/20) two_bus_Sxfr [1, 1] (1/4)
     [0, 0, 0, - (3/5), 4/5] (1/4) (Scheme Natural) (1/100) 1 [0, 0]
   = ([1, 139/280], False, 1, 1/2, 9801/78400, [\<i> * (141/280), - (\<i> * (19599/78400))])"
proof -
  define A where "A = \<lparr>a_Ybus = two_bus_Y, a_Sbus = [0, 0], a_pv = [], a_pq = [1],
      a_Sxfr = two_bus_Sxfr, a_Vprv = [1, 1], a_lamprv = 1/4, a_z = [0, 0, 0, - (3/5), 4/5],
      a_step = 1/4, a_parametrization = Scheme Natural, a_tol = 1/100, a_max_it = 1,
      a_pvpq_lookup = [0, 0]\<rparr>"
  define s0 where "s0 = corr_init A [1, 17/20] (9/20)"
  define s1 where "s1 = newton_iter two_bus_sv A s0"
  have e0: "s0 = \<lparr>c_V = [1, 17/20], c_Va = [0, 0], c_Vm = [1, 17/20], c_lam = 9/20,
       c_F = [0, 21/100, - (1/20)], c_normF = 21/100,
       c_Scalc = [\<i> * (3/20), - (\<i> * (51/400))], c_converged = False, c_i = 0\<rparr>"
    using two_bus_S [of "17/20"]
    by (auto simp: s0_def A_def corr_init_def Let_def power_mismatch_def two_bus_Sxfr_def)
  have e1: "s1 = \<lparr>c_V = [1, 139/280], c_Va = [0, 0], c_Vm = [1, 139/280], c_lam = 1/2,
       c_F = [0, 9801/78400, 0], c_normF = 9801/78400,
       c_Scalc = [\<i> * (141/280), - (\<i> * (19599/78400))], c_converged = False, c_i = 1\<rparr>"
    unfolding s1_def e0
    using two_bus_S [of "139/280"]
    by (auto simp: A_def newton_iter_def Let_def power_mismatch_def two_bus_Sxfr_def
        two_bus_sv_def two_bus_J_def dF_dlam_of_def augment_def polar_def vadd_def slice_def)
  have m: "a_max_it A = 1" by (simp add: A_def)
  have "corr_loop two_bus_sv A s0 = corr_loop two_bus_sv A s1"
    using m by (subst corr_loop.simps) (simp add: e0 s1_def)
  also have "\<dots> = s1"
    using m by (subst corr_loop.simps) (simp add: e1)
  finally have "corr_loop two_bus_sv A s0 = s1" .
  then show ?thesis
    unfolding corrector_def Let_def A_def [symmetric] s0_def [symmetric]
    by (simp add: e1)
qed

lemma two_bus_corrector_rederived:
  "corrector two_bus_sv two_bus_Y [0, \<i> * (1/10)] [1, 17/20] [] [1] (9/20) two_bus_Sxfr [1, 1] (1/4)
     [0, 0, 0, - (3/5), 4/5] (1/4) (Scheme Natural) (1/100) 1 [0, 0]
   = ([1, 179/280], False, 1, 1/2, 3481/78400, [\<i> * (101/280), - (\<i> * (18079/78400))])"
proof -
  define A where "A = \<lparr>a_Ybus = two_bus_Y, a_Sbus = [0, \<i> * (1/10)], a_pv = [], a_pq = [1],
      a_Sxfr = two_bus_Sxfr, a_Vprv = [1, 1], a_lamprv = 1/4, a_z = [0, 0, 0, - (3/5), 4/5],
      a_step = 1/4, a_parametrization = Scheme Natural, a_tol = 1/100, a_max_it = 1,
      a_pvpq_lookup = [0, 0]\<rparr>"
  define s0 where "s0 = corr_init A [1, 17/20] (9/20)"
  define s1 where "s1 = newton_iter two_bus_sv A s0"
  have e0: "s0 = \<lparr>c_V = [1, 17/20], c_Va = [0, 0], c_Vm = [1, 17/20], c_lam = 9/20,
       c_F = [0, 11/100, - (1/20)], c_normF = 11/100,
       c_Scalc = [\<i> * (3/20), - (\<i> * (51/400))], c_converged = False, c_i = 0\<rparr>"
    using two_bus_S [of "17/20"]
    by (auto simp: s0_def A_def corr_init_def Let_def power_mismatch_def two_bus_Sxfr_def)
  have e1: "s1 = \<lparr>c_V = [1, 179/280], c_Va = [0, 0], c_Vm = [1, 179/280], c_lam = 1/2,
       c_F = [0, 3481/78400, 0], c_normF = 3481/78400,
       c_Scalc = [\<i> * (101/280), - (\<i> * (18079/78400))], c_converged = False, c_i = 1\<rparr>"
    unfolding s1_def e0
    using two_bus_S [of "179/280"]
    by (auto simp: A_def newton_iter_def Let_def power_mismatch_def two_bus_Sxfr_def
        two_bus_sv_def two_bus_J_def dF_dlam_of_def augment_def polar_def vadd_def slice_def)
  have m: "a_max_it A = 1" by (simp add: A_def)
  have "corr_loop two_bus_sv A s0 = corr_loop two_bus_sv A s1"
    using m by (subst corr_loop.simps) (simp add: e0 s1_def)
  also have "\<dots> = s1"
    using m by (subst corr_loop.simps) (simp add: e1)
  finally have "corr_loop two_bus_sv A s0 = s1" .
  then show ?thesis
    unfolding corrector_def Let_def A_def [symmetric] s0_def [symmetric]
    by (simp add: e1)
qed

lemma two_bus_pv_second_step:
  "cont_iter two_bus_sv two_bus_pv_env
     \<lparr>s_V = [1, 1], s_lam = 1/4, s_V_prev = [1, 1], s_lam_prev = 0,
      s_V0 = [1, 1], s_lam0 = 1/4,
      s_z = [0, 0, 0, 0, 1], s_step = 1/4, s_pv = [], s_pq = [1],
      s_bus_types = [3, 1], s_Sbus = Some [0, \<i> * (1/10)],
      s_Scalc = [0, 0],
      s_approximation_order = Scheme Natural, s_adapt_step = False,
      s_continuation = True, s_cont_steps = 1, s_normF = 0, s_success = True,
      s_voltage_series = [[1, 1]], s_lambda_series = [1/4], s_callback_log = []\<rparr> =
   Inr \<lparr>s_V = [1, 139/280], s_lam = 1/2, s_V_prev = [1, 1], s_lam_prev = 1/4,
      s_V0 = [1, 17/20], s_lam0 = 9/20,
      s_z = [0, 0, 0, - (3/5), 4/5], s_step = 1/4, s_pv = [], s_pq = [1],
      s_bus_types = [3, 1], s_Sbus = Some [0, \<i> * (1/10)],
      s_Scalc = [\<i> * (141/280), - (\<i> * (19599/78400))],
      s_approximation_order = Scheme Natural, s_adapt_step = False,
      s_continuation = False, s_cont_steps = 2, s_normF = 9801/78400, s_success = False,
      s_voltage_series = [[1, 1], [1, 139/280]], s_lambda_series = [1/4, 1/2],
      s_callback_log = []\<rparr>"
  unfolding cont_iter_def predict_correct_def two_bus_pv_env_eval
  by (simp add: two_bus_predictor_second two_bus_corrector_base Let_def del: One_nat_def)

lemma two_bus_adapt_env_eval:
  "two_bus_adapt_env smax et =
     \<lparr>e_Ybus = two_bus_Y, e_Sbus_base = [0, 0], e_Sxfr = two_bus_Sxfr, e_pvpq = [1],
      e_pvpq_lookup = [0, 0], e_step_min = 1 / 10000, e_step_max = smax,
      e_error_tol = et, e_tol = 1 / 100, e_max_it = 20, e_stop_at = StopAt Nose,
      e_controlQ = NoControl, e_Qmax_bus = [], e_Qmin_bus = [], e_original_bus_types = [3, 1],
      e_call_back = False\<rparr>"
  by (simp add: two_bus_adapt_env_def init_env_def Let_def two_bus_Y_def two_bus_Sxfr_def)

lemma two_bus_adapt_step:
  "cont_iter two_bus_sv (two_bus_adapt_env smax et) two_bus_start =
   Inr \<lparr>s_V = [1, 107/140], s_lam = 1/4, s_V_prev = [1, 1], s_lam_prev = 0,
      s_V0 = [1, 17/20], s_lam0 = 1/5,
      s_z = [0, 0, 0, - (3/5), 4/5], s_step = (if 3/35 < et then (if 35 * et / 12 > smax then smax else 35 * et / 12)
                 else (if 35 * et / 12 < 1/10000 then 1/10000 else 35 * et / 12)), s_pv = [], s_pq = [1],
      s_bus_types = [3, 1], s_Sbus = None,
      s_Scalc = [\<i> * (33/140), - (\<i> * (3531/19600))],
      s_approximation_order = Scheme Natural, s_adapt_step = True,
      s_continuation = True, s_cont_steps = 1, s_normF = 9/1225, s_success = True,
      s_voltage_series = [[1, 107/140]], s_lambda_series = [1/4], s_callback_log = []\<rparr>"
proof -
  have pc: "predict_correct two_bus_sv (two_bus_adapt_env smax et) two_bus_start =
     \<lparr>s_V = [1, 107/140], s_lam = 1/4, s_V_prev = [1, 1], s_lam_prev = 0,
      s_V0 = [1, 17/20], s_lam0 = 1/5,
      s_z = [0, 0, 0, - (3/5), 4/5], s_step = 1 / 4, s_pv = [], s_pq = [1],
      s_bus_types = [3, 1], s_Sbus = None,
      s_Scalc = [\<i> * (33/140), - (\<i> * (3531/19600))],
      s_approximation_order = Scheme Natural, s_adapt_step = True,
      s_continuation = True, s_cont_steps = 1, s_normF = 9/1225, s_success = True,
      s_voltage_series = [[1, 107/140]], s_lambda_series = [1/4], s_callback_log = []\<rparr>"
    unfolding predict_correct_def two_bus_adapt_env_eval two_bus_start_eval
    by (simp add: two_bus_predictor two_bus_corrector [of "1/100" 20] del: One_nat_def)
  have ce: "cpf_error_of (two_bus_adapt_env smax et) s = 3/35"
    if "s_V s = [1, 107/140]" "s_V0 s = [1, 17/20]" "s_pq s = [1]" "s_lam s = 1/4"
      "s_lam0 s = 1/5" for s
    unfolding two_bus_adapt_env_eval
    by (simp add: cpf_error_of_def Let_def vsub_def that)
  have f: "e_controlQ (two_bus_adapt_env smax et) = NoControl"
    "e_stop_at (two_bus_adapt_env smax et) = StopAt Nose"
    "e_call_back (two_bus_adapt_env smax et) = False"
    "e_error_tol (two_bus_adapt_env smax et) = et"
    "e_step_min (two_bus_adapt_env smax et) = 1/10000"
    "e_step_max (two_bus_adapt_env smax et) = smax"
    by (simp_all add: two_bus_adapt_env_eval)
  show ?thesis
    unfolding cont_iter_def pc Let_def
    by (simp add: q_control_def stop_check_def adapt_step_size_def call_back_def f
          ce Let_def min_def max_def del: One_nat_def)
qed

lemma two_bus_pv_adapt_start_eval:
  "two_bus_pv_adapt_start =
     \<lparr>s_V = [1, 1], s_lam = 0, s_V_prev = [1, 1], s_lam_prev = 0, s_V0 = [], s_lam0 = 0,
      s_z = [0, 0, 0, 0, 1], s_step = 1 / 4, s_pv = [1], s_pq = [],
      s_bus_types = [3, 2], s_Sbus = None, s_Scalc = [],
      s_approximation_order = Scheme Natural, s_adapt_step = True,
      s_continuation = True, s_cont_steps = 0, s_normF = 0, s_success = False,
      s_voltage_series = [], s_lambda_series = [], s_callback_log = []\<rparr>"
  by (simp add: two_bus_pv_adapt_start_def init_state_def Let_def eval_nat_numeral)

lemma two_bus_pv_adapt_step:
  "cont_iter two_bus_sv two_bus_pv_env two_bus_pv_adapt_start =
   Inr \<lparr>s_V = [1, 1], s_lam = 1/4, s_V_prev = [1, 1], s_lam_prev = 0,
      s_V0 = [1, 1], s_lam0 = 1/4,
      s_z = [0, 0, 0, 0, 1], s_step = 1/5, s_pv = [], s_pq = [1],
      s_bus_types = [3, 1], s_Sbus = Some [0, \<i> * (1/10)],
      s_Scalc = [0, 0],
      s_approximation_order = Scheme Natural, s_adapt_step = True,
      s_continuation = True, s_cont_steps = 1, s_normF = 0, s_success = True,
      s_voltage_series = [[1, 1]], s_lambda_series = [1/4], s_callback_log = []\<rparr>"
proof -
  have pc: "predict_correct two_bus_sv two_bus_pv_env two_bus_pv_adapt_start =
     \<lparr>s_V = [1, 1], s_lam = 1/4, s_V_prev = [1, 1], s_lam_prev = 0,
      s_V0 = [1, 1], s_lam0 = 1/4,
      s_z = [0, 0, 0, 0, 1], s_step = 1/4, s_pv = [1], s_pq = [],
      s_bus_types = [3, 2], s_Sbus = None,
      s_Scalc = [0, 0],
      s_approximation_order = Scheme Natural, s_adapt_step = True,
      s_continuation = True, s_cont_steps = 1, s_normF = 0, s_success = True,
      s_voltage_series = [[1, 1]], s_lambda_series = [1/4], s_callback_log = []\<rparr>"
    unfolding predict_correct_def two_bus_pv_env_eval two_bus_pv_adapt_start_eval
    by (simp add: two_bus_pv_predictor two_bus_pv_corrector Let_def del: One_nat_def)
  have q: "q_clip [1, 1] [1, 1] [0, 0] [1, 1] [- 1, 1 / 10] [3, 2] [3, 2]
           = ([1, 1], [0, 1/10], [3, 1], True)"
    by (simp add: q_clip_def Let_def)
  have t: "compile_by_type S [3, 1] = ([0], [1], [], [1])" for S
    by (simp add: compile_by_type_def Let_def upt_rec)
  have c: "[Complex 0 0, Complex 0 (1/10)] = [0, \<i> * (1/10)]"
    by (simp add: complex_eq_iff)
  show ?thesis
    unfolding cont_iter_def pc Let_def
    unfolding two_bus_pv_env_eval
    by (simp add: q_control_def stop_check_def adapt_step_size_def call_back_def
          cpf_error_of_def vsub_def
          two_bus_sv_def q t c Let_def del: One_nat_def)
qed

section \<open>Parametrization function: the three schemes and the fallback\<close>

text \<open>
  Claim C9. Under the Natural scheme the parametrization function is
  \<open>lam - lamprv - step\<close> when \<open>lam \<ge> lamprv\<close> and \<open>lamprv - lam - step\<close>
  otherwise; evaluated at the previous point itself with a zero step it is 0.
\<close>

theorem cpf_p_natural:
  "cpf_p (Scheme Natural) step z V lam V_prev lamprv pv pq pvpq =
     (if lam \<ge> lamprv then lam - lamprv - step else lamprv - lam - step)
   \<and> cpf_p (Scheme Natural) 0 z V_prev lamprv V_prev lamprv pv pq pvpq = 0"
  by simp

text \<open>
  Claim C6. Under the ArcLength scheme the parametrization function is the squared
  distance between the two points, over the angles at \<open>pvpq\<close>, the magnitudes at \<open>pq\<close>
  and \<open>lambda\<close>, minus \<open>step\<^sup>2\<close>, so it vanishes at a point whose distance from the
  previous one is exactly \<open>step\<close>; its derivatives are twice the differences on those
  slots and \<open>2 * (lam - lamprv)\<close>, replaced by 1 when \<open>lam = lamprv\<close>.
\<close>

theorem cpf_p_arclength:
  assumes "\<forall>j \<in> set pvpq \<union> set pq. j < length V \<and> j < length V_prev"
  shows "cpf_p (Scheme ArcLength) step z V lam V_prev lamprv pv pq pvpq =
           arc_distance_sq V lam V_prev lamprv pvpq pq - step\<^sup>2
         \<and> (sqrt (arc_distance_sq V lam V_prev lamprv pvpq pq) = step \<longrightarrow>
              cpf_p (Scheme ArcLength) step z V lam V_prev lamprv pv pq pvpq = 0)
         \<and> cpf_p_jac (Scheme ArcLength) z V lam V_prev lamprv pv pq pvpq =
             (map (\<lambda>j. 2 * (angle (V ! j) - angle (V_prev ! j))) pvpq
                @ map (\<lambda>j. 2 * (cmod (V ! j) - cmod (V_prev ! j))) pq,
              if lam = lamprv then 1 else 2 * (lam - lamprv))"
proof -
  have a: "(\<Sum>j\<leftarrow>pvpq. (map angle V ! j - map angle V_prev ! j)\<^sup>2)
           = (\<Sum>j\<leftarrow>pvpq. (angle (V ! j) - angle (V_prev ! j))\<^sup>2)"
    using assms by (intro arg_cong [where f = sum_list] map_cong) auto
  have m: "(\<Sum>j\<leftarrow>pq. (map cmod V ! j - map cmod V_prev ! j)\<^sup>2)
           = (\<Sum>j\<leftarrow>pq. (cmod (V ! j) - cmod (V_prev ! j))\<^sup>2)"
    using assms by (intro arg_cong [where f = sum_list] map_cong) auto
  have a2: "map (\<lambda>j. 2 * (map angle V ! j - map angle V_prev ! j)) pvpq
           = map (\<lambda>j. 2 * (angle (V ! j) - angle (V_prev ! j))) pvpq"
    using assms by (intro map_cong) auto
  have m2: "map (\<lambda>j. 2 * (map cmod V ! j - map cmod V_prev ! j)) pq
           = map (\<lambda>j. 2 * (cmod (V ! j) - cmod (V_prev ! j))) pq"
    using assms by (intro map_cong) auto
  have d: "0 \<le> arc_distance_sq V lam V_prev lamprv pvpq pq"
    unfolding arc_distance_sq_def by (intro add_nonneg_nonneg sum_list_nonneg) auto
  have P: "cpf_p (Scheme ArcLength) step z V lam V_prev lamprv pv pq pvpq =
           arc_distance_sq V lam V_prev lamprv pvpq pq - step\<^sup>2"
    unfolding cpf_p_arclength_sum arc_distance_sq_def a m by simp
  have Z: "sqrt (arc_distance_sq V lam V_prev lamprv pvpq pq) = step \<Longrightarrow>
           cpf_p (Scheme ArcLength) step z V lam V_prev lamprv pv pq pvpq = 0"
    unfolding P using d by (metis diff_self real_sqrt_pow2)
  have J: "cpf_p_jac (Scheme ArcLength) z V lam V_prev lamprv pv pq pvpq =
             (map (\<lambda>j. 2 * (angle (V ! j) - angle (V_prev ! j))) pvpq
                @ map (\<lambda>j. 2 * (cmod (V ! j) - cmod (V_prev ! j))) pq,
              if lam = lamprv then 1 else 2 * (lam - lamprv))"
    unfolding cpf_p_jac_arclength a2 m2 by simp
  show ?thesis using P Z J by blast
qed

theorem cpf_p_arclength_witness:
  "sqrt (arc_distance_sq [1] (1/2) [1] 0 [0] [0]) = 1/2
   \<and> cpf_p (Scheme ArcLength) (1/2) [0, 0, 1] [1] (1/2) [1] 0 [] [0] [0] = 0
   \<and> cpf_p_jac (Scheme ArcLength) [0, 0, 1] [1] (1/2) [1] 0 [] [0] [0] = ([0, 0], 1)"
proof -
  have h: "\<forall>j \<in> set [0] \<union> set [0]. j < length [1::complex] \<and> j < length [1::complex]"
    by simp
  have s: "sqrt (arc_distance_sq [1] (1/2) [1] 0 [0] [0]) = 1/2"
    by (simp add: arc_distance_sq_def real_sqrt_divide power_divide)
  from cpf_p_arclength [OF h, of "1/2" "[0, 0, 1]" "1/2" 0 "[]"] s h
  show ?thesis by simp
qed

text \<open>
  On a value that is no member of the enumeration, \<open>cpf_p_jac\<close> does not return the
  derivatives of the Natural scheme: it returns slices of the tangent \<open>z\<close>.
\<close>

theorem cpf_p_jac_fallback_counterexample:
  "cpf_p_jac OtherValue [3/5, 0, 4/5] [1] 0 [1] 0 [] [0] [0] = ([3/5, 0], 4/5)
   \<and> cpf_p_jac (Scheme Natural) [3/5, 0, 4/5] [1] 0 [1] 0 [] [0] [0] = ([0, 0], 1)"
  by (simp add: gather_def)

text \<open>
  Claim C3, amended. On a value that is no member of the enumeration, \<open>cpf_p\<close> returns
  the value of the Natural scheme, and \<open>cpf_p_jac\<close> returns the derivatives of the
  PseudoArcLength scheme: the slices of \<open>z\<close> at the angle slots of \<open>pv\<close> and \<open>pq\<close>
  and the magnitude slots of \<open>pq\<close>, and the entry of \<open>z\<close> at the \<open>lambda\<close> slot.
\<close>

theorem cpf_fallback:
  "cpf_p OtherValue step z V lam V_prev lamprv pv pq pvpq =
     cpf_p (Scheme Natural) step z V lam V_prev lamprv pv pq pvpq
   \<and> cpf_p_jac OtherValue z V lam V_prev lamprv pv pq pvpq =
       cpf_p_jac (Scheme PseudoArcLength) z V lam V_prev lamprv pv pq pvpq
   \<and> cpf_p_jac OtherValue z V lam V_prev lamprv pv pq pvpq =
       (gather z (pv @ pq @ map (\<lambda>j. length V + j) pq), z ! (2 * length V))"
  by (simp add: Let_def)

section \<open>Corrector\<close>

text \<open>
  A corrector call that converges after one Newton iteration, and the call that takes its
  result as the new initial guess: the second call reports 0 iterations, not 1.
\<close>

theorem corrector_second_call_counterexample:
  "corrector two_bus_sv two_bus_Y [0, 0] [1, 17/20] [] [1] (1/5) two_bus_Sxfr [1, 1] 0
     [0, 0, 0, - (3/5), 4/5] (1/4) (Scheme Natural) (1/100) 20 [0, 0]
   = ([1, 107/140], True, 1, 1/4, 9/1225, [\<i> * (33/140), - (\<i> * (3531/19600))])
   \<and> corrector two_bus_sv two_bus_Y [0, 0] [1, 107/140] [] [1] (1/4) two_bus_Sxfr [1, 1] 0
     [0, 0, 0, - (3/5), 4/5] (1/4) (Scheme Natural) (1/100) 20 [0, 0]
   = ([1, 107/140], True, 0, 1/4, 9/1225, [\<i> * (33/140), - (\<i> * (3531/19600))])"
  using two_bus_corrector [of "1/100" 20] two_bus_corrector_again [of "1/100" 20]
  by simp

text \<open>
  Claim C5, amended. When the corrector has converged, calling it again with the returned
  \<open>V\<close> and \<open>lam\<close> as the initial guess (the other arguments unchanged, any iteration
  limit) converges without any Newton iteration: it returns the iteration count 0 and the
  same voltages, \<open>lam\<close>, residual norm and \<open>Scalc\<close>.
\<close>

theorem corrector_idempotent:
  assumes "corrector sv Ybus Sbus V0 pv pq lam0 Sxfr Vprv lamprv z step parametrization tol
             max_it pvpq_lookup = (V, True, i, lam, normF, Scalc)"
  shows "corrector sv Ybus Sbus V pv pq lam Sxfr Vprv lamprv z step parametrization tol
           max_it' pvpq_lookup = (V, True, 0, lam, normF, Scalc)"
proof -
  define A where "A = \<lparr>a_Ybus = Ybus, a_Sbus = Sbus, a_pv = pv, a_pq = pq, a_Sxfr = Sxfr,
               a_Vprv = Vprv, a_lamprv = lamprv, a_z = z, a_step = step,
               a_parametrization = parametrization, a_tol = tol, a_max_it = max_it,
               a_pvpq_lookup = pvpq_lookup\<rparr>"
  define A' where "A' = A\<lparr>a_max_it := max_it'\<rparr>"
  define t where "t = corr_loop sv A (corr_init A V0 lam0)"
  have t: "c_V t = V" "c_converged t" "c_lam t = lam" "c_normF t = normF" "c_Scalc t = Scalc"
    using assms by (simp_all add: corrector_def A_def t_def Let_def)
  have c: "t = (corr_init A V lam)\<lparr>c_i := c_i t\<rparr>"
    using corr_loop_consistent [OF corr_init_consistent, of sv A V0 lam0] t
    by (simp add: t_def)
  have i: "corr_init A' V lam = corr_init A V lam"
    by (simp add: A'_def corr_init_def Let_def)
  have cv: "c_converged (corr_init A V lam)"
    using c t(2) by (metis corr_state.select_convs(8) corr_state.surjective corr_state.update_convs(9))
  have "corr_loop sv A' (corr_init A' V lam) = corr_init A V lam"
    using cv i by (subst corr_loop.simps) simp
  moreover have "c_V (corr_init A V lam) = V" "c_i (corr_init A V lam) = 0"
    "c_lam (corr_init A V lam) = lam"
    by (simp_all add: corr_init_def Let_def)
  moreover have "c_normF (corr_init A V lam) = normF" "c_Scalc (corr_init A V lam) = Scalc"
    using c t by (metis corr_state.select_convs(6) corr_state.surjective corr_state.update_convs(9),
       metis corr_state.select_convs(7) corr_state.surjective corr_state.update_convs(9))
  ultimately show ?thesis
    using cv by (simp add: corrector_def Let_def A'_def A_def)
qed

theorem corrector_idempotent_witness:
  "corrector two_bus_sv two_bus_Y [0, 0] [1, 107/140] [] [1] (1/4) two_bus_Sxfr [1, 1] 0
     [0, 0, 0, - (3/5), 4/5] (1/4) (Scheme Natural) (1/50) 7 [0, 0]
   = ([1, 107/140], True, 0, 1/4, 9/1225, [\<i> * (33/140), - (\<i> * (3531/19600))])"
proof -
  have "corrector two_bus_sv two_bus_Y [0, 0] [1, 17/20] [] [1] (1/5) two_bus_Sxfr [1, 1] 0
     [0, 0, 0, - (3/5), 4/5] (1/4) (Scheme Natural) (1/50) 20 [0, 0]
   = ([1, 107/140], True, 1, 1/4, 9/1225, [\<i> * (33/140), - (\<i> * (3531/19600))])"
    using two_bus_corrector [of "1/50" 20] by simp
  then show ?thesis by (rule corrector_idempotent)
qed




section \<open>Predictor\<close>



section \<open>Continuation driver\<close>

text \<open>
  Claim C4. In every state that a run of the driver reaches, during the run or at its end,
  the voltage series and the lambda series have as many entries as continuation steps
  have been attempted; each pass through the loop counts one step and appends exactly one
  pair, the voltages and the lambda that the corrector returned, and it does so as well
  when the corrector has not converged, in which case the loop ends.
\<close>

theorem series_one_entry_per_step:
  assumes "cont_run n sv e (init_state Sbus_base V pv pq step approximation_order adapt_step
             original_bus_types) = Inr s"
  shows "length (s_voltage_series s) = s_cont_steps s
         \<and> length (s_lambda_series s) = s_cont_steps s
         \<and> s_cont_steps s \<le> n
         \<and> (\<forall>s'. cont_iter sv e s = Inr s' \<longrightarrow>
               s_cont_steps s' = s_cont_steps s + 1
               \<and> s_voltage_series s' = s_voltage_series s @ [s_V (predict_correct sv e s)]
               \<and> s_lambda_series s' = s_lambda_series s @ [s_lam (predict_correct sv e s)])
         \<and> (\<not> s_success (predict_correct sv e s) \<longrightarrow>
               cont_iter sv e s = Inr ((predict_correct sv e s)\<lparr>s_continuation := False\<rparr>))"
proof -
  have i: "length (s_voltage_series (init_state Sbus_base V pv pq step approximation_order
             adapt_step original_bus_types)) = s_cont_steps (init_state Sbus_base V pv pq step
             approximation_order adapt_step original_bus_types)"
    "length (s_lambda_series (init_state Sbus_base V pv pq step approximation_order
             adapt_step original_bus_types)) = s_cont_steps (init_state Sbus_base V pv pq step
             approximation_order adapt_step original_bus_types)"
    "s_cont_steps (init_state Sbus_base V pv pq step
             approximation_order adapt_step original_bus_types) = 0"
    by (simp_all add: init_state_def Let_def)
  from cont_run_invariant [OF assms i(1,2)] i(3)
  have a: "length (s_voltage_series s) = s_cont_steps s
         \<and> length (s_lambda_series s) = s_cont_steps s \<and> s_cont_steps s \<le> n"
    by simp
  have b: "\<not> s_success (predict_correct sv e s) \<longrightarrow>
               cont_iter sv e s = Inr ((predict_correct sv e s)\<lparr>s_continuation := False\<rparr>)"
    by (simp add: cont_iter_def Let_def)
  show ?thesis using a b cont_iter_series by blast
qed

theorem series_one_entry_per_step_witness:
  "cont_run 1 two_bus_sv (two_bus_env (1 / 10 ^ 6) 1 (StopAt Nose) NoControl) two_bus_start =
   Inr \<lparr>s_V = [1, 107/140], s_lam = 1/4, s_V_prev = [1, 1], s_lam_prev = 0,
      s_V0 = [1, 17/20], s_lam0 = 1/5,
      s_z = [0, 0, 0, - (3/5), 4/5], s_step = 1/4, s_pv = [], s_pq = [1],
      s_bus_types = [3, 1], s_Sbus = None,
      s_Scalc = [\<i> * (33/140), - (\<i> * (3531/19600))],
      s_approximation_order = Scheme Natural, s_adapt_step = True,
      s_continuation = False, s_cont_steps = 1, s_normF = 9/1225, s_success = False,
      s_voltage_series = [[1, 107/140]], s_lambda_series = [1/4], s_callback_log = []\<rparr>
   \<and> length [[1, 107/140 :: complex]] = (1 :: nat) \<and> length [1/4 :: real] = (1 :: nat)"
proof -
  let ?E = "two_bus_env (1 / 10 ^ 6) 1 (StopAt Nose) NoControl"
  let ?S = "\<lparr>s_V = [1, 107/140], s_lam = 1/4, s_V_prev = [1, 1], s_lam_prev = 0,
      s_V0 = [1, 17/20], s_lam0 = 1/5,
      s_z = [0, 0, 0, - (3/5), 4/5], s_step = 1/4, s_pv = [], s_pq = [1],
      s_bus_types = [3, 1], s_Sbus = None,
      s_Scalc = [\<i> * (33/140), - (\<i> * (3531/19600))],
      s_approximation_order = Scheme Natural, s_adapt_step = True,
      s_continuation = False, s_cont_steps = 1, s_normF = 9/1225, s_success = False,
      s_voltage_series = [[1, 107/140]], s_lambda_series = [1/4], s_callback_log = []\<rparr>"
  have c: "s_continuation two_bus_start" by (simp add: two_bus_start_eval)
  have r: "cont_run 1 two_bus_sv ?E two_bus_start = Inr ?S"
    unfolding cont_run_one [OF c] two_bus_failed_step by simp
  from series_one_entry_per_step [OF r [unfolded two_bus_start_def]] r
  show ?thesis by simp
qed

text \<open>
  Claim C8 asks that the next step strictly increases whenever \<open>cpf_error\<close> is below
  \<open>error_tol\<close>. The driver never compares the step it is given with \<open>step_max\<close>. In
  the two-bus run below the step \<open>1/4\<close> starts above \<open>step_max = 1/5\<close>; the first
  step converges and leaves the loop running, with \<open>cpf_error = 3/35\<close> below
  \<open>error_tol = 1/10\<close>; the update \<open>7/24\<close> is clamped at \<open>step_max\<close>, and the next
  step \<open>1/5\<close> is smaller than the step \<open>1/4\<close> before it.
\<close>

theorem step_above_maximum_counterexample:
  "cont_iter two_bus_sv (two_bus_adapt_env (1/5) (1/10)) two_bus_start =
   Inr \<lparr>s_V = [1, 107/140], s_lam = 1/4, s_V_prev = [1, 1], s_lam_prev = 0,
      s_V0 = [1, 17/20], s_lam0 = 1/5,
      s_z = [0, 0, 0, - (3/5), 4/5], s_step = 1/5, s_pv = [], s_pq = [1],
      s_bus_types = [3, 1], s_Sbus = None,
      s_Scalc = [\<i> * (33/140), - (\<i> * (3531/19600))],
      s_approximation_order = Scheme Natural, s_adapt_step = True,
      s_continuation = True, s_cont_steps = 1, s_normF = 9/1225, s_success = True,
      s_voltage_series = [[1, 107/140]], s_lambda_series = [1/4], s_callback_log = []\<rparr>
   \<and> map_sum id (cpf_error_of (two_bus_adapt_env (1/5) (1/10)))
        (cont_iter two_bus_sv (two_bus_adapt_env (1/5) (1/10)) two_bus_start) = Inr (3/35)
   \<and> e_error_tol (two_bus_adapt_env (1/5) (1/10)) = 1/10
   \<and> e_step_max (two_bus_adapt_env (1/5) (1/10)) = 1/5
   \<and> s_step two_bus_start = 1/4"
proof -
  let ?E = "two_bus_adapt_env (1/5) (1/10)"
  let ?S = "\<lparr>s_V = [1, 107/140], s_lam = 1/4, s_V_prev = [1, 1], s_lam_prev = 0,
      s_V0 = [1, 17/20], s_lam0 = 1/5,
      s_z = [0, 0, 0, - (3/5), 4/5], s_step = 1/5, s_pv = [], s_pq = [1],
      s_bus_types = [3, 1], s_Sbus = None,
      s_Scalc = [\<i> * (33/140), - (\<i> * (3531/19600))],
      s_approximation_order = Scheme Natural, s_adapt_step = True,
      s_continuation = True, s_cont_steps = 1, s_normF = 9/1225, s_success = True,
      s_voltage_series = [[1, 107/140]], s_lambda_series = [1/4], s_callback_log = []\<rparr>"
  have a: "cont_iter two_bus_sv ?E two_bus_start = Inr ?S"
    unfolding two_bus_adapt_step by simp
  have b: "cpf_error_of ?E ?S = 3/35"
    unfolding two_bus_adapt_env_eval by (simp add: cpf_error_of_def Let_def vsub_def)
  have c: "e_error_tol ?E = 1/10" "e_step_max ?E = 1/5" "s_step two_bus_start = 1/4"
    by (simp_all add: two_bus_adapt_env_eval two_bus_start_eval)
  show ?thesis
    unfolding a using b c by simp
qed

text \<open>
  Claim C8, amended. After a successful step that leaves the loop running with the
  adaptive step enabled, \<open>cpf_error\<close> is the largest absolute difference between the
  corrected and the predicted point, taken over the angles at the PQ buses, the
  magnitudes at the PV and PQ buses and lambda, with an exact zero replaced by
  \<open>1e-20\<close>; so it is positive, and \<open>step * error_tol / cpf_error\<close> never divides by
  zero. The next step is this quotient clamped above at \<open>step_max\<close> when \<open>cpf_error\<close>
  is below \<open>error_tol\<close>, and clamped below at \<open>step_min\<close> otherwise. For a positive
  step: below \<open>error_tol\<close> the quotient is larger than the step, the next step is
  strictly larger when the step was below \<open>step_max\<close>, and it is \<open>step_max\<close> when the
  step was at or above it; above \<open>error_tol\<close> the quotient is smaller than the step,
  the next step is strictly smaller when the step was above \<open>step_min\<close>, and it is
  \<open>step_min\<close> when the step was at or below it.
\<close>

theorem adaptive_step_control:
  assumes "cont_iter sv e s = Inr s'"
    and "s_success s'" and "s_continuation s'" and "s_adapt_step s'"
    and "fx = map2 (-)
                (map (\<lambda>j. angle (s_V s' ! j)) (s_pq s') @ map (\<lambda>j. cmod (s_V s' ! j)) (e_pvpq e)
                   @ [s_lam s'])
                (map (\<lambda>j. angle (s_V0 s' ! j)) (s_pq s') @ map (\<lambda>j. cmod (s_V0 s' ! j)) (e_pvpq e)
                   @ [s_lam0 s'])"
    and "cpf_error = (if Max (set (map abs fx)) = 0 then 1 / 10 ^ 20
                      else Max (set (map abs fx)))"
    and "new_step = s_step s * e_error_tol e / cpf_error"
  shows "0 < cpf_error
         \<and> s_V0 s' = s_V0 (predict_correct sv e s)
         \<and> s_lam0 s' = s_lam0 (predict_correct sv e s)
         \<and> s_lam s' = s_lam (predict_correct sv e s)
         \<and> s_step s' = (if cpf_error < e_error_tol e then min new_step (e_step_max e)
                        else max new_step (e_step_min e))
         \<and> (0 < s_step s \<and> cpf_error < e_error_tol e \<longrightarrow>
              s_step s < new_step
              \<and> (s_step s < e_step_max e \<longrightarrow> s_step s < s_step s')
              \<and> (e_step_max e \<le> s_step s \<longrightarrow> s_step s' = e_step_max e))
         \<and> (0 < s_step s \<and> e_error_tol e < cpf_error \<longrightarrow>
              new_step < s_step s
              \<and> (e_step_min e < s_step s \<longrightarrow> s_step s' < s_step s)
              \<and> (s_step s \<le> e_step_min e \<longrightarrow> s_step s' = e_step_min e))"
  using assms(1)
proof (cases rule: cont_iter_cases)
  case failed
  with assms(3) show ?thesis by simp
next
  case (succeeded s3)
  have f: "s_adapt_step s3" "s_continuation s3"
    using assms(3,4) succeeded(3) by (simp_all add: call_back_keeps adapt_step_size_keeps)
  have st: "s_step s3 = s_step s"
    using stop_check_keeps(5) [OF succeeded(2) f(1)]
    by (simp add: q_control_keeps predict_correct_series)
  have "cpf_error_of e s' = cpf_error"
    unfolding cpf_error_of_Max Let_def assms(5,6) ..
  then have ce: "cpf_error_of e s3 = cpf_error"
    by (simp add: succeeded(3) call_back_keeps adapt_step_size_keeps)
  have p: "0 < cpf_error" using cpf_error_of_pos [of e s3] ce by simp
  have "s_step s' = s_step (adapt_step_size e s3)"
    by (simp add: succeeded(3) call_back_keeps)
  then have s': "s_step s' =
           (if cpf_error < e_error_tol e then min new_step (e_step_max e)
            else max new_step (e_step_min e))"
    unfolding adapt_step_size_step [OF f, of e] st ce assms(7) .
  have up: "s_step s < new_step" if "0 < s_step s" "cpf_error < e_error_tol e"
    using that p by (simp add: assms(7) pos_less_divide_eq mult.commute)
  have down: "new_step < s_step s" if "0 < s_step s" "e_error_tol e < cpf_error"
    using that p by (simp add: assms(7) pos_divide_less_eq mult.commute)
  have a: "(0 < s_step s \<and> cpf_error < e_error_tol e \<longrightarrow>
              s_step s < new_step
              \<and> (s_step s < e_step_max e \<longrightarrow> s_step s < s_step s')
              \<and> (e_step_max e \<le> s_step s \<longrightarrow> s_step s' = e_step_max e))"
    using s' up by (auto simp: min_def)
  have b: "(0 < s_step s \<and> e_error_tol e < cpf_error \<longrightarrow>
              new_step < s_step s
              \<and> (e_step_min e < s_step s \<longrightarrow> s_step s' < s_step s)
              \<and> (s_step s \<le> e_step_min e \<longrightarrow> s_step s' = e_step_min e))"
    using s' down by (auto simp: max_def)
  note pt = cont_iter_point [OF assms(1)]
  show ?thesis
    by (intro conjI) (fact p pt(1) pt(2) pt(3) s' a b)+
qed

theorem adaptive_step_control_witness:
  "cont_iter two_bus_sv (two_bus_adapt_env 1 (1/10)) two_bus_start =
   Inr \<lparr>s_V = [1, 107/140], s_lam = 1/4, s_V_prev = [1, 1], s_lam_prev = 0,
      s_V0 = [1, 17/20], s_lam0 = 1/5,
      s_z = [0, 0, 0, - (3/5), 4/5], s_step = 7/24, s_pv = [], s_pq = [1],
      s_bus_types = [3, 1], s_Sbus = None,
      s_Scalc = [\<i> * (33/140), - (\<i> * (3531/19600))],
      s_approximation_order = Scheme Natural, s_adapt_step = True,
      s_continuation = True, s_cont_steps = 1, s_normF = 9/1225, s_success = True,
      s_voltage_series = [[1, 107/140]], s_lambda_series = [1/4], s_callback_log = []\<rparr>
   \<and> (3/35 :: real) < 1/10 \<and> (7/24 :: real) = min (1/4 * (1/10) / (3/35)) 1
   \<and> (1/4 :: real) < 7/24
   \<and> cont_iter two_bus_sv (two_bus_env (1/100) 20 (StopAt Nose) NoControl) two_bus_start =
   Inr \<lparr>s_V = [1, 107/140], s_lam = 1/4, s_V_prev = [1, 1], s_lam_prev = 0,
      s_V0 = [1, 17/20], s_lam0 = 1/5,
      s_z = [0, 0, 0, - (3/5), 4/5], s_step = 7/2400, s_pv = [], s_pq = [1],
      s_bus_types = [3, 1], s_Sbus = None,
      s_Scalc = [\<i> * (33/140), - (\<i> * (3531/19600))],
      s_approximation_order = Scheme Natural, s_adapt_step = True,
      s_continuation = True, s_cont_steps = 1, s_normF = 9/1225, s_success = True,
      s_voltage_series = [[1, 107/140]], s_lambda_series = [1/4], s_callback_log = []\<rparr>
   \<and> (1/1000 :: real) < 3/35 \<and> (7/2400 :: real) = max (1/4 * (1/1000) / (3/35)) (1/10000)
   \<and> (7/2400 :: real) < 1/4
   \<and> cont_iter two_bus_sv two_bus_pv_env two_bus_pv_adapt_start =
   Inr \<lparr>s_V = [1, 1], s_lam = 1/4, s_V_prev = [1, 1], s_lam_prev = 0,
      s_V0 = [1, 1], s_lam0 = 1/4,
      s_z = [0, 0, 0, 0, 1], s_step = 1/5, s_pv = [], s_pq = [1],
      s_bus_types = [3, 1], s_Sbus = Some [0, \<i> * (1/10)],
      s_Scalc = [0, 0],
      s_approximation_order = Scheme Natural, s_adapt_step = True,
      s_continuation = True, s_cont_steps = 1, s_normF = 0, s_success = True,
      s_voltage_series = [[1, 1]], s_lambda_series = [1/4], s_callback_log = []\<rparr>
   \<and> (1/5 :: real) = min (1/4 * (1/1000) / (1 / 10 ^ 20)) (1/5)"
proof -
  let ?E1 = "two_bus_adapt_env 1 (1/10)"
  let ?S1 = "\<lparr>s_V = [1, 107/140], s_lam = 1/4, s_V_prev = [1, 1], s_lam_prev = 0,
      s_V0 = [1, 17/20], s_lam0 = 1/5,
      s_z = [0, 0, 0, - (3/5), 4/5], s_step = 7/24, s_pv = [], s_pq = [1],
      s_bus_types = [3, 1], s_Sbus = None,
      s_Scalc = [\<i> * (33/140), - (\<i> * (3531/19600))],
      s_approximation_order = Scheme Natural, s_adapt_step = True,
      s_continuation = True, s_cont_steps = 1, s_normF = 9/1225, s_success = True,
      s_voltage_series = [[1, 107/140]], s_lambda_series = [1/4], s_callback_log = []\<rparr>"
  let ?E2 = "two_bus_env (1/100) 20 (StopAt Nose) NoControl"
  let ?S2 = "\<lparr>s_V = [1, 107/140], s_lam = 1/4, s_V_prev = [1, 1], s_lam_prev = 0,
      s_V0 = [1, 17/20], s_lam0 = 1/5,
      s_z = [0, 0, 0, - (3/5), 4/5], s_step = 7/2400, s_pv = [], s_pq = [1],
      s_bus_types = [3, 1], s_Sbus = None,
      s_Scalc = [\<i> * (33/140), - (\<i> * (3531/19600))],
      s_approximation_order = Scheme Natural, s_adapt_step = True,
      s_continuation = True, s_cont_steps = 1, s_normF = 9/1225, s_success = True,
      s_voltage_series = [[1, 107/140]], s_lambda_series = [1/4], s_callback_log = []\<rparr>"
  let ?S3 = "\<lparr>s_V = [1, 1], s_lam = 1/4, s_V_prev = [1, 1], s_lam_prev = 0,
      s_V0 = [1, 1], s_lam0 = 1/4,
      s_z = [0, 0, 0, 0, 1], s_step = 1/5, s_pv = [], s_pq = [1],
      s_bus_types = [3, 1], s_Sbus = Some [0, \<i> * (1/10)],
      s_Scalc = [0, 0],
      s_approximation_order = Scheme Natural, s_adapt_step = True,
      s_continuation = True, s_cont_steps = 1, s_normF = 0, s_success = True,
      s_voltage_series = [[1, 1]], s_lambda_series = [1/4], s_callback_log = []\<rparr>"
  have r1: "cont_iter two_bus_sv ?E1 two_bus_start = Inr ?S1"
    unfolding two_bus_adapt_step by simp
  have h1: "s_success ?S1" "s_continuation ?S1" "s_adapt_step ?S1" by simp_all
  have x1: "[0, - (3/35), 1/20] = map2 (-)
                (map (\<lambda>j. angle (s_V ?S1 ! j)) (s_pq ?S1) @ map (\<lambda>j. cmod (s_V ?S1 ! j)) (e_pvpq ?E1)
                   @ [s_lam ?S1])
                (map (\<lambda>j. angle (s_V0 ?S1 ! j)) (s_pq ?S1) @ map (\<lambda>j. cmod (s_V0 ?S1 ! j)) (e_pvpq ?E1)
                   @ [s_lam0 ?S1])"
    unfolding two_bus_adapt_env_eval by simp
  have c: "(3/35 :: real) = (if Max (set (map abs [0, - (3/35), 1/20 :: real])) = 0
                      then 1 / 10 ^ 20
                      else Max (set (map abs [0, - (3/35), 1/20 :: real])))"
    by simp
  have n1: "(7/24 :: real) = s_step two_bus_start * e_error_tol ?E1 / (3/35)"
    by (simp add: two_bus_adapt_env_eval two_bus_start_eval)
  have f1: "e_error_tol ?E1 = 1/10" "e_step_max ?E1 = 1" "s_step two_bus_start = 1/4"
    "s_step ?S1 = 7/24"
    by (simp_all add: two_bus_adapt_env_eval two_bus_start_eval)
  from adaptive_step_control [OF r1 h1 x1 c n1]
  have "s_step ?S1 = (if 3/35 < e_error_tol ?E1 then min (7/24) (e_step_max ?E1)
                      else max (7/24) (e_step_min ?E1))
        \<and> (0 < s_step two_bus_start \<and> 3/35 < e_error_tol ?E1 \<longrightarrow>
          s_step two_bus_start < 7/24
          \<and> (s_step two_bus_start < e_step_max ?E1 \<longrightarrow> s_step two_bus_start < s_step ?S1)
          \<and> (e_step_max ?E1 \<le> s_step two_bus_start \<longrightarrow> s_step ?S1 = e_step_max ?E1))"
    by blast
  then have a1: "(3/35 :: real) < 1/10 \<and> (7/24 :: real) = min (1/4 * (1/10) / (3/35)) 1
                 \<and> (1/4 :: real) < 7/24"
    unfolding f1 by simp
  have h2: "s_success ?S2" "s_continuation ?S2" "s_adapt_step ?S2" by simp_all
  have x2: "[0, - (3/35), 1/20] = map2 (-)
                (map (\<lambda>j. angle (s_V ?S2 ! j)) (s_pq ?S2) @ map (\<lambda>j. cmod (s_V ?S2 ! j)) (e_pvpq ?E2)
                   @ [s_lam ?S2])
                (map (\<lambda>j. angle (s_V0 ?S2 ! j)) (s_pq ?S2) @ map (\<lambda>j. cmod (s_V0 ?S2 ! j)) (e_pvpq ?E2)
                   @ [s_lam0 ?S2])"
    unfolding two_bus_env_eval by simp
  have n2: "(7/2400 :: real) = s_step two_bus_start * e_error_tol ?E2 / (3/35)"
    by (simp add: two_bus_env_eval two_bus_start_eval)
  have f2: "e_error_tol ?E2 = 1/1000" "e_step_min ?E2 = 1/10000" "s_step ?S2 = 7/2400"
    by (simp_all add: two_bus_env_eval)
  from adaptive_step_control [OF two_bus_first_step h2 x2 c n2]
  have "s_step ?S2 = (if 3/35 < e_error_tol ?E2 then min (7/2400) (e_step_max ?E2)
                      else max (7/2400) (e_step_min ?E2))
        \<and> (0 < s_step two_bus_start \<and> e_error_tol ?E2 < 3/35 \<longrightarrow>
          7/2400 < s_step two_bus_start
          \<and> (e_step_min ?E2 < s_step two_bus_start \<longrightarrow> s_step ?S2 < s_step two_bus_start)
          \<and> (s_step two_bus_start \<le> e_step_min ?E2 \<longrightarrow> s_step ?S2 = e_step_min ?E2))"
    by blast
  then have a2: "(1/1000 :: real) < 3/35
                 \<and> (7/2400 :: real) = max (1/4 * (1/1000) / (3/35)) (1/10000)
                 \<and> (7/2400 :: real) < 1/4"
    unfolding f1 f2 by simp
  have h3: "s_success ?S3" "s_continuation ?S3" "s_adapt_step ?S3" by simp_all
  have x3: "[0, 0, 0] = map2 (-)
                (map (\<lambda>j. angle (s_V ?S3 ! j)) (s_pq ?S3)
                   @ map (\<lambda>j. cmod (s_V ?S3 ! j)) (e_pvpq two_bus_pv_env) @ [s_lam ?S3])
                (map (\<lambda>j. angle (s_V0 ?S3 ! j)) (s_pq ?S3)
                   @ map (\<lambda>j. cmod (s_V0 ?S3 ! j)) (e_pvpq two_bus_pv_env) @ [s_lam0 ?S3])"
    unfolding two_bus_pv_env_eval by simp
  have c3: "(1 / 10 ^ 20 :: real) = (if Max (set (map abs [0, 0, 0 :: real])) = 0
                      then 1 / 10 ^ 20
                      else Max (set (map abs [0, 0, 0 :: real])))"
    by simp
  have n3: "(1/4 * (1/1000) / (1 / 10 ^ 20) :: real)
            = s_step two_bus_pv_adapt_start * e_error_tol two_bus_pv_env / (1 / 10 ^ 20)"
    by (simp add: two_bus_pv_env_eval two_bus_pv_adapt_start_eval)
  have f3: "e_error_tol two_bus_pv_env = 1/1000" "e_step_max two_bus_pv_env = 1/5"
    "s_step ?S3 = 1/5"
    by (simp_all add: two_bus_pv_env_eval)
  from adaptive_step_control [OF two_bus_pv_adapt_step h3 x3 c3 n3]
  have "s_step ?S3 = (if 1 / 10 ^ 20 < e_error_tol two_bus_pv_env
                      then min (1/4 * (1/1000) / (1 / 10 ^ 20)) (e_step_max two_bus_pv_env)
                      else max (1/4 * (1/1000) / (1 / 10 ^ 20)) (e_step_min two_bus_pv_env))"
    by blast
  then have a3: "(1/5 :: real) = min (1/4 * (1/1000) / (1 / 10 ^ 20)) (1/5)"
    unfolding f3 by simp
  from r1 a1 two_bus_first_step a2 two_bus_pv_adapt_step a3
  show ?thesis by blast
qed

text \<open>
  Claim C1 asks that, once reactive-limit control has reclassified a bus, the following
  predictor and corrector steps work with the re-derived bus partition and the re-derived
  bus power vector. The driver re-derives both, and passes on the partition only. In the
  two-bus run below the first step converges, the control turns the PV bus into a PQ bus
  at its lower limit, and the driver stores the re-derived vector \<open>[0, \<i>/10]\<close> and the
  partition \<open>pv = []\<close>, \<open>pq = [1]\<close>. The second step returns the voltages
  \<open>[1, 139/280]\<close>, which is what the corrector computes from the base injections
  \<open>[0, 0]\<close>; from the re-derived vector it computes \<open>[1, 179/280]\<close>. In general the
  predictor and corrector block neither reads nor changes the stored vector.
\<close>

theorem rederived_Sbus_not_used:
  "map_sum id (\<lambda>s. (s_Sbus s, s_pv s, s_pq s, s_bus_types s))
     (cont_iter two_bus_sv two_bus_pv_env two_bus_pv_start)
   = Inr (Some [0, \<i> * (1/10)], [], [1], [3, 1])
   \<and> continuation_nr 2 two_bus_sv two_bus_Y [0, 0] [0, - (3 / 4) * \<i>] [1, 1] [1] [] (1 / 4)
       (Scheme Natural) False (1 / 10000) (1 / 5) (1 / 1000) (1 / 100) 1 (StopAt Nose)
       Direct [1, 1] [- 1, 1 / 10] (Some [3, 2]) False
     = Some (Inr ([[1, 1], [1, 139/280]], [1/4, 1/2], 9801/78400, False))
   \<and> corrector two_bus_sv two_bus_Y [0, 0] [1, 17/20] [] [1] (9/20) two_bus_Sxfr [1, 1] (1/4)
       [0, 0, 0, - (3/5), 4/5] (1/4) (Scheme Natural) (1/100) 1 [0, 0]
     = ([1, 139/280], False, 1, 1/2, 9801/78400,
        [\<i> * (141/280), - (\<i> * (19599/78400))])
   \<and> corrector two_bus_sv two_bus_Y [0, \<i> * (1/10)] [1, 17/20] [] [1] (9/20) two_bus_Sxfr
       [1, 1] (1/4) [0, 0, 0, - (3/5), 4/5] (1/4) (Scheme Natural) (1/100) 1 [0, 0]
     = ([1, 179/280], False, 1, 1/2, 3481/78400,
        [\<i> * (101/280), - (\<i> * (18079/78400))])
   \<and> predict_correct sv e (s\<lparr>s_Sbus := b\<rparr>) = (predict_correct sv e s)\<lparr>s_Sbus := b\<rparr>"
proof -
  have i: "indices two_bus_Y \<noteq> []"
    "\<not> list_ex (\<lambda>j. j > Max (set (indices two_bus_Y))) ([1] @ [])"
    by (simp_all add: two_bus_Y_def)
  have c: "s_continuation two_bus_pv_start" by (simp add: two_bus_pv_start_eval)
  have r: "cont_run 2 two_bus_sv two_bus_pv_env two_bus_pv_start =
     Inr \<lparr>s_V = [1, 139/280], s_lam = 1/2, s_V_prev = [1, 1], s_lam_prev = 1/4,
      s_V0 = [1, 17/20], s_lam0 = 9/20,
      s_z = [0, 0, 0, - (3/5), 4/5], s_step = 1/4, s_pv = [], s_pq = [1],
      s_bus_types = [3, 1], s_Sbus = Some [0, \<i> * (1/10)],
      s_Scalc = [\<i> * (141/280), - (\<i> * (19599/78400))],
      s_approximation_order = Scheme Natural, s_adapt_step = False,
      s_continuation = False, s_cont_steps = 2, s_normF = 9801/78400, s_success = False,
      s_voltage_series = [[1, 1], [1, 139/280]], s_lambda_series = [1/4, 1/2],
      s_callback_log = []\<rparr>"
    unfolding cont_run_two [OF c] two_bus_pv_first_step sum.case
    by (subst cont_run_one) (simp_all only: two_bus_pv_second_step sum.case cpf_state.simps)
  have n: "continuation_nr 2 two_bus_sv two_bus_Y [0, 0] [0, - (3 / 4) * \<i>] [1, 1] [1] [] (1 / 4)
       (Scheme Natural) False (1 / 10000) (1 / 5) (1 / 1000) (1 / 100) 1 (StopAt Nose)
       Direct [1, 1] [- 1, 1 / 10] (Some [3, 2]) False
     = (case cont_run 2 two_bus_sv two_bus_pv_env two_bus_pv_start of
          Inl err \<Rightarrow> Some (Inl err)
        | Inr s \<Rightarrow>
            if s_continuation s then None
            else Some (Inr (s_voltage_series s, s_lambda_series s, s_normF s, s_success s)))"
    unfolding continuation_nr_def two_bus_np_sub two_bus_pv_env_def two_bus_pv_start_def
    using i by (simp only: sum.case option.case if_False)
  have a: "map_sum id (\<lambda>s. (s_Sbus s, s_pv s, s_pq s, s_bus_types s))
     (cont_iter two_bus_sv two_bus_pv_env two_bus_pv_start)
   = Inr (Some [0, \<i> * (1/10)], [], [1], [3, 1])"
    by (simp only: two_bus_pv_first_step) simp
  have b: "continuation_nr 2 two_bus_sv two_bus_Y [0, 0] [0, - (3 / 4) * \<i>] [1, 1] [1] [] (1 / 4)
       (Scheme Natural) False (1 / 10000) (1 / 5) (1 / 1000) (1 / 100) 1 (StopAt Nose)
       Direct [1, 1] [- 1, 1 / 10] (Some [3, 2]) False
     = Some (Inr ([[1, 1], [1, 139/280]], [1/4, 1/2], 9801/78400, False))"
    by (simp only: n r) simp
  have p: "predict_correct sv e (s\<lparr>s_Sbus := b\<rparr>) = (predict_correct sv e s)\<lparr>s_Sbus := b\<rparr>"
    by (simp add: predict_correct_def Let_def split: prod.splits)
  show ?thesis
    using a b two_bus_corrector_base two_bus_corrector_rederived p by blast
qed




end
